theory Spec2Isabelle
  imports Main "HOL-Library.AList"
begin

section \<open>Data model\<close>

text \<open>
  The device-access engine lives in the device-access router (\<open>hasDevicePermission\<close>,
  \<open>logBlockedAttempt\<close>, \<open>createSecurityAlert\<close>, \<open>POST /connect/:deviceId\<close>,
  \<open>POST /disconnect/:deviceId\<close>), the resolve transition in the alerts API router
  (\<open>PUT /:id/resolve\<close>), the persistence gateway in \<open>config/database.js\<close> and the
  schema in the migrations. Rows are records, a nullable column is an \<open>option\<close>,
  a table is the list of its rows, and a JSON object is an association list in property
  order. Timestamps are abstract clock readings. Log lines (\<open>routeLogger\<close>,
  \<open>dbLogger\<close>) and the back-off waits between the attempts of \<open>query\<close> have no
  effect on responses, session or store and are left out.
\<close>

type_synonym timestamp = nat

datatype jval = JNull | JBool bool | JNum int | JStr string

type_synonym jobject = "(string \<times> jval) list"

text \<open>Table \<open>devices\<close>; \<open>status\<close> and \<open>firmware_version\<close> are nullable columns.\<close>

record device =
  d_id :: int
  d_name :: string
  d_device_type :: string
  d_mac_address :: "string option"
  d_ip_address :: "string option"
  d_location :: "string option"
  d_firmware_version :: "string option"
  d_status :: "string option"

text \<open>Table \<open>users\<close>; only the columns the engine reads.\<close>

record user_row =
  u_id :: int
  u_role :: "string option"

text \<open>
  Table \<open>blocked_attempts\<close> (migration 004). The record is the column list that
  \<open>logBlockedAttempt\<close> hands to \<open>db.insert\<close>; \<open>source_ip\<close> is \<open>NOT NULL\<close> in the
  schema, so a stored row always carries one. The serial \<open>id\<close> is read by none of the
  modelled code and is left out.
\<close>

record blocked_attempt =
  ba_source_ip :: "string option"
  ba_target_device_id :: "int option"
  ba_attempt_type :: string
  ba_blocked_at :: timestamp
  ba_attempt_count :: int
  ba_user_agent :: "string option"
  ba_request_details :: jobject

text \<open>Table \<open>security_alerts\<close> (migration 006).\<close>

record security_alert =
  sa_id :: int
  sa_device_id :: "int option"
  sa_alert_type :: string
  sa_severity :: string
  sa_description :: "string option"
  sa_source_ip :: "string option"
  sa_detected_at :: timestamp
  sa_resolved_at :: "timestamp option"
  sa_status :: "string option"
  sa_resolved_by :: "int option"
  sa_metadata :: "jobject option"

text \<open>The column list \<open>createSecurityAlert\<close> hands to \<open>db.insert\<close>.\<close>

record new_alert =
  na_device_id :: "int option"
  na_alert_type :: string
  na_severity :: string
  na_description :: "string option"
  na_source_ip :: "string option"
  na_detected_at :: timestamp
  na_status :: string
  na_metadata :: jobject

text \<open>
  The persisted state. \<open>security_alerts_id_seq\<close> is the last value handed out by the
  serial of \<open>security_alerts.id\<close>.
\<close>

record database =
  devices :: "device list"
  users :: "user_row list"
  blocked_attempts :: "blocked_attempt list"
  security_alerts :: "security_alert list"
  security_alerts_id_seq :: int

text \<open>The session store entry: \<open>req.session.user\<close> and \<open>req.session.connectedDevice\<close>.\<close>

record connected_device =
  cd_id :: int
  cd_name :: string
  cd_deviceType :: string
  cd_macAddress :: "string option"
  cd_ipAddress :: "string option"
  cd_location :: "string option"
  cd_firmwareVersion :: "string option"
  cd_status :: "string option"
  cd_connectedAt :: timestamp
  cd_sessionDuration :: string

record session =
  user_id :: int
  connectedDevice :: "connected_device option"

text \<open>
  A request to the device-access router, after \<open>requireAuthOrDeny\<close> has let it
  through (so \<open>req.session.user\<close> exists): the raw path parameter, \<open>req.ip\<close>, the
  \<open>User-Agent\<close> header and the session.
\<close>

record request =
  param_deviceId :: string
  ip :: "string option"
  user_agent :: "string option"
  req_session :: session

text \<open>The JSON response of the device-access router: status code and body.\<close>

record response =
  status_code :: nat
  success :: bool
  message :: string
  device_snapshot :: "connected_device option"

datatype statement = SelectFrom string | InsertInto string | Update string

datatype error = PgError string | SyntaxError

text \<open>
  What a handler cannot see in its arguments: the clock (\<open>new Date()\<close>), the faults of
  the store, the input function of the server's type \<open>INET\<close>, and the builtin
  \<open>JSON.parse\<close> on a metadata value. \<open>inet_in e s\<close> tells whether the server takes
  the text \<open>s\<close> for an \<open>INET\<close> value; it refuses a text that is no address, such as
  one with a zone (\<open>fe80::1%eth0\<close>), with code 22P02. \<open>fault e st n\<close> is the
  error code, if any, that attempt \<open>n\<close> (counted from 0) of statement \<open>st\<close> meets for a
  reason outside the schema modelled here (connection lost, pool timeout, a value the
  server rejects). A faulted attempt has no effect on the store. A handler issues each
  statement once, so indexing faults by statement and attempt loses nothing within one
  request.
\<close>

record env =
  now :: timestamp
  fault :: "statement \<Rightarrow> nat \<Rightarrow> string option"
  inet_in :: "string \<Rightarrow> bool"
  JSON_parse :: "jobject \<Rightarrow> error + jobject"

section \<open>JavaScript builtins used by the handlers\<close>

text \<open>
  \<open>parseInt(string)\<close> with no radix, after ECMA-262: skip leading white space, read a
  sign, switch to radix 16 after \<open>0x\<close>/\<open>0X\<close>, take the longest prefix of digits, and
  give \<open>NaN\<close> (here \<open>None\<close>) when that prefix is empty. White space is the ASCII part
  of the standard's set, and the value is the exact integer (a JavaScript number rounds
  it beyond \<open>2^53\<close>).
\<close>

definition isWhiteSpace :: "char \<Rightarrow> bool" where
  "isWhiteSpace c = (of_char c \<in> {9::nat, 10, 11, 12, 13, 32})"

definition digitValue :: "char \<Rightarrow> nat option" where
  "digitValue c =
     (let n = (of_char c :: nat)
      in if 48 \<le> n \<and> n \<le> 57 then Some (n - 48)
         else if 97 \<le> n \<and> n \<le> 122 then Some (n - 87)
         else if 65 \<le> n \<and> n \<le> 90 then Some (n - 55)
         else None)"

definition isRadixDigit :: "nat \<Rightarrow> char \<Rightarrow> bool" where
  "isRadixDigit R c = (case digitValue c of None \<Rightarrow> False | Some v \<Rightarrow> v < R)"

definition mathInt :: "nat \<Rightarrow> string \<Rightarrow> nat" where
  "mathInt R Z = foldl (\<lambda>acc c. acc * R + (case digitValue c of None \<Rightarrow> 0 | Some v \<Rightarrow> v)) 0 Z"

definition parseInt :: "string \<Rightarrow> int option" where
  "parseInt inputString =
     (let S = dropWhile isWhiteSpace inputString;
          sign = (if S \<noteq> [] \<and> hd S = CHR ''-'' then - 1 else (1::int));
          S1 = (if S \<noteq> [] \<and> (hd S = CHR ''+'' \<or> hd S = CHR ''-'') then tl S else S);
          hex = (take 2 S1 = ''0x'' \<or> take 2 S1 = ''0X'');
          R = (if hex then 16 else 10);
          S2 = (if hex then drop 2 S1 else S1);
          Z = takeWhile (isRadixDigit R) S2
      in if Z = [] then None else Some (sign * int (mathInt R Z)))"

text \<open>JavaScript truthiness of a JSON value, for \<open>details.reason || 'unauthorized_access'\<close>.\<close>

fun truthy :: "jval \<Rightarrow> bool" where
  "truthy JNull = False"
| "truthy (JBool b) = b"
| "truthy (JNum n) = (n \<noteq> 0)"
| "truthy (JStr s) = (s \<noteq> [])"

text \<open>Object spread \<open>{...base, ...ext}\<close>: later properties overwrite in place or append.\<close>

definition spread :: "jobject \<Rightarrow> jobject \<Rightarrow> jobject" where
  "spread base ext = foldl (\<lambda>obj kv. AList.update (fst kv) (snd kv) obj) base ext"

definition nullable :: "string option \<Rightarrow> jval" where
  "nullable v = (case v of None \<Rightarrow> JNull | Some s \<Rightarrow> JStr s)"

section \<open>Persistence gateway (config/database.js)\<close>

text \<open>
  \<open>query(text, params, retries = 3)\<close>: up to four attempts. An attempt meets a fault or
  runs the statement on the store; an error whose code is in the no-retry list, or on
  the last attempt, is thrown, any other is retried. The statement is passed as its
  effect on the store. The \<open>while (attempt <= retries)\<close> test holds whenever the loop
  is entered, since every path that continues has checked \<open>attempt > retries\<close> before.
\<close>

definition retries :: nat where
  "retries = 3"

definition no_retry :: "error \<Rightarrow> bool" where
  "no_retry err =
     (case err of
        PgError c \<Rightarrow> c = ''42P01'' \<or> c = ''42703'' \<or> c = ''23505'' \<or> c = ''23503''
      | SyntaxError \<Rightarrow> False)"

function query_from ::
  "env \<Rightarrow> statement \<Rightarrow> (database \<Rightarrow> error + 'a \<times> database) \<Rightarrow> database \<Rightarrow> nat
     \<Rightarrow> (error + 'a) \<times> database" where
  "query_from e st run db attempt =
     (case (case fault e st attempt of Some c \<Rightarrow> Inl (PgError c) | None \<Rightarrow> run db) of
        Inr (res, db') \<Rightarrow> (Inr res, db')
      | Inl err \<Rightarrow>
          if no_retry err then (Inl err, db)
          else if attempt + 1 > retries then (Inl err, db)
          else query_from e st run db (attempt + 1))"
  by pat_completeness auto
termination
  by (relation "measure (\<lambda>(e, st, run, db, attempt). retries - attempt)") auto

declare query_from.simps [simp del]

definition query ::
  "env \<Rightarrow> statement \<Rightarrow> (database \<Rightarrow> error + 'a \<times> database) \<Rightarrow> database
     \<Rightarrow> (error + 'a) \<times> database" where
  "query e st run db = query_from e st run db 0"

text \<open>
  The statements the handlers issue, as their effect under the schema of the
  migrations. \<open>has_security_enabled\<close> is the \<open>CASE\<close> column of the device lookup.
\<close>

definition has_security_enabled :: "device \<Rightarrow> bool" where
  "has_security_enabled d =
     (case d_firmware_version d of None \<Rightarrow> False | Some v \<Rightarrow> v \<noteq> [])"

definition select_device :: "int \<Rightarrow> database \<Rightarrow> error + device list \<times> database" where
  "select_device i db = Inr (filter (\<lambda>d. d_id d = i) (devices db), db)"

definition select_user :: "int \<Rightarrow> database \<Rightarrow> error + user_row list \<times> database" where
  "select_user i db = Inr (filter (\<lambda>u. u_id u = i) (users db), db)"

definition select_alert :: "int \<Rightarrow> database \<Rightarrow> error + security_alert list \<times> database" where
  "select_alert i db = Inr (filter (\<lambda>a. sa_id a = i) (security_alerts db), db)"

text \<open>\<open>INTEGER REFERENCES devices(id)\<close> and \<open>INTEGER REFERENCES users(id)\<close>.\<close>

definition references_device :: "database \<Rightarrow> int option \<Rightarrow> bool" where
  "references_device db r =
     (case r of None \<Rightarrow> True | Some i \<Rightarrow> i \<in> set (map d_id (devices db)))"

definition references_user :: "database \<Rightarrow> int option \<Rightarrow> bool" where
  "references_user db r =
     (case r of None \<Rightarrow> True | Some i \<Rightarrow> i \<in> set (map u_id (users db)))"

text \<open>
  \<open>INSERT INTO blocked_attempts ... RETURNING *\<close>. The column \<open>source_ip\<close> is
  \<open>INET NOT NULL\<close>: a missing address is refused (code 23502), and so is a text the
  server does not take for an \<open>INET\<close> value (code 22P02). The foreign key of
  \<open>target_device_id\<close> is checked (code 23503).
\<close>

definition insert_blocked_attempt ::
  "env \<Rightarrow> blocked_attempt \<Rightarrow> database \<Rightarrow> error + blocked_attempt \<times> database" where
  "insert_blocked_attempt e row db =
     (case ba_source_ip row of
        None \<Rightarrow> Inl (PgError ''23502'')
      | Some s \<Rightarrow>
          if \<not> inet_in e s then Inl (PgError ''22P02'')
          else if \<not> references_device db (ba_target_device_id row) then Inl (PgError ''23503'')
          else Inr (row, db\<lparr>blocked_attempts := blocked_attempts db @ [row]\<rparr>))"

definition stored_alert :: "int \<Rightarrow> new_alert \<Rightarrow> security_alert" where
  "stored_alert i data =
     \<lparr>sa_id = i,
      sa_device_id = na_device_id data,
      sa_alert_type = na_alert_type data,
      sa_severity = na_severity data,
      sa_description = na_description data,
      sa_source_ip = na_source_ip data,
      sa_detected_at = na_detected_at data,
      sa_resolved_at = None,
      sa_status = Some (na_status data),
      sa_resolved_by = None,
      sa_metadata = Some (na_metadata data)\<rparr>"

text \<open>
  \<open>INSERT INTO security_alerts ... RETURNING *\<close>: the serial gives the \<open>id\<close>, the
  columns that are not listed (\<open>resolved_at\<close>, \<open>resolved_by\<close>) are \<open>NULL\<close>. The column
  \<open>source_ip\<close> is \<open>INET\<close> and may be \<open>NULL\<close>: a text the server does not take for
  an \<open>INET\<close> value is refused when the parameters are bound (code 22P02), before the
  serial is touched. The foreign key of \<open>device_id\<close> is checked (code 23503); the
  serial value that such a rejected row uses up is not modelled, and connect cannot
  cause it, since it inserts the alert for a device it has just read.
\<close>

definition insert_security_alert ::
  "env \<Rightarrow> new_alert \<Rightarrow> database \<Rightarrow> error + security_alert \<times> database" where
  "insert_security_alert e data db =
     (if (case na_source_ip data of None \<Rightarrow> False | Some s \<Rightarrow> \<not> inet_in e s)
      then Inl (PgError ''22P02'')
      else if \<not> references_device db (na_device_id data) then Inl (PgError ''23503'')
      else
        let row = stored_alert (security_alerts_id_seq db + 1) data
        in Inr (row, db\<lparr>security_alerts := security_alerts db @ [row],
                         security_alerts_id_seq := security_alerts_id_seq db + 1\<rparr>))"

text \<open>
  \<open>UPDATE security_alerts SET ... WHERE id = $n RETURNING *\<close> as the resolve route
  builds it: \<open>status\<close> and \<open>resolved_at\<close> are always in the \<open>SET\<close> list,
  \<open>resolved_by\<close> and \<open>metadata\<close> only when given. The foreign key of
  \<open>resolved_by\<close> is checked when a row is written.
\<close>

record alert_update =
  up_status :: string
  up_resolved_at :: timestamp
  up_resolved_by :: "int option"
  up_metadata :: "jobject option"

definition set_columns :: "alert_update \<Rightarrow> security_alert \<Rightarrow> security_alert" where
  "set_columns u a =
     a\<lparr>sa_status := Some (up_status u),
       sa_resolved_at := Some (up_resolved_at u),
       sa_resolved_by := (case up_resolved_by u of None \<Rightarrow> sa_resolved_by a | Some r \<Rightarrow> Some r),
       sa_metadata := (case up_metadata u of None \<Rightarrow> sa_metadata a | Some m \<Rightarrow> Some m)\<rparr>"

definition update_security_alert ::
  "alert_update \<Rightarrow> int \<Rightarrow> database \<Rightarrow> error + security_alert list \<times> database" where
  "update_security_alert u i db =
     (if list_ex (\<lambda>a. sa_id a = i) (security_alerts db) \<and> \<not> references_user db (up_resolved_by u)
      then Inl (PgError ''23503'')
      else
        let rows = map (\<lambda>a. if sa_id a = i then set_columns u a else a) (security_alerts db)
        in Inr (filter (\<lambda>a. sa_id a = i) rows, db\<lparr>security_alerts := rows\<rparr>))"

text \<open>\<open>findById(table, id)\<close>: \<open>result.rows[0] || null\<close>.\<close>

definition first_row :: "'a list \<Rightarrow> 'a option" where
  "first_row rows = (case rows of [] \<Rightarrow> None | r # _ \<Rightarrow> Some r)"

definition findById_security_alerts ::
  "env \<Rightarrow> int \<Rightarrow> database \<Rightarrow> (error + security_alert option) \<times> database" where
  "findById_security_alerts e i db =
     (case query e (SelectFrom ''security_alerts'') (select_alert i) db of
        (Inl err, db') \<Rightarrow> (Inl err, db')
      | (Inr rows, db') \<Rightarrow> (Inr (first_row rows), db'))"

definition findById_users ::
  "env \<Rightarrow> int \<Rightarrow> database \<Rightarrow> (error + user_row option) \<times> database" where
  "findById_users e i db =
     (case query e (SelectFrom ''users'') (select_user i) db of
        (Inl err, db') \<Rightarrow> (Inl err, db')
      | (Inr rows, db') \<Rightarrow> (Inr (first_row rows), db'))"

section \<open>Permission resolver and recorders (device-access router)\<close>

text \<open>
  \<open>hasDevicePermission\<close>: the role is read from the \<open>users\<close> table; an admin is
  permitted, anyone else is not, and a failed lookup is caught and answers \<open>false\<close>.
  The three helpers are \<open>async\<close> functions whose whole body is a \<open>try\<close>; their
  result is \<open>Inl\<close> when they reject, so that a caller has to handle it.
\<close>

definition hasDevicePermission ::
  "env \<Rightarrow> int \<Rightarrow> int \<Rightarrow> database \<Rightarrow> (error + bool) \<times> database" where
  "hasDevicePermission e userId deviceId db =
     (case query e (SelectFrom ''users'') (select_user userId) db of
        (Inr rows, db') \<Rightarrow>
          (case rows of
             [] \<Rightarrow> (Inr False, db')
           | u # _ \<Rightarrow> if u_role u = Some ''admin'' then (Inr True, db') else (Inr False, db'))
      | (Inl err, db') \<Rightarrow> (Inr False, db'))"

definition blocked_reason :: "jobject \<Rightarrow> jval" where
  "blocked_reason details =
     (case map_of details ''reason'' of
        None \<Rightarrow> JStr ''unauthorized_access''
      | Some v \<Rightarrow> if truthy v then v else JStr ''unauthorized_access'')"

text \<open>The column list of \<open>logBlockedAttempt\<close>, with \<open>request_details\<close> before \<open>JSON.stringify\<close>.\<close>

definition blocked_attempt_row ::
  "env \<Rightarrow> int \<Rightarrow> int \<Rightarrow> string option \<Rightarrow> string \<Rightarrow> string option \<Rightarrow> jobject
     \<Rightarrow> blocked_attempt" where
  "blocked_attempt_row e userId deviceId sourceIp attemptType userAgent details =
     \<lparr>ba_source_ip = sourceIp,
      ba_target_device_id = Some deviceId,
      ba_attempt_type = attemptType,
      ba_blocked_at = now e,
      ba_attempt_count = 1,
      ba_user_agent = userAgent,
      ba_request_details =
        spread [(''user_id'', JNum userId), (''blocked_reason'', blocked_reason details)]
          details\<rparr>"

definition logBlockedAttempt ::
  "env \<Rightarrow> int \<Rightarrow> int \<Rightarrow> string option \<Rightarrow> string \<Rightarrow> string option \<Rightarrow> jobject \<Rightarrow> database
     \<Rightarrow> (error + unit) \<times> database" where
  "logBlockedAttempt e userId deviceId sourceIp attemptType userAgent details db =
     (case query e (InsertInto ''blocked_attempts'')
             (insert_blocked_attempt e
                (blocked_attempt_row e userId deviceId sourceIp attemptType userAgent details))
             db of
        (Inr row, db') \<Rightarrow> (Inr (), db')
      | (Inl err, db') \<Rightarrow> (Inr (), db'))"

text \<open>The column list of \<open>createSecurityAlert\<close>.\<close>

definition security_alert_data ::
  "env \<Rightarrow> int \<Rightarrow> string \<Rightarrow> string \<Rightarrow> string \<Rightarrow> string option \<Rightarrow> jobject \<Rightarrow> new_alert" where
  "security_alert_data e deviceId alertType severity description sourceIp metadata =
     \<lparr>na_device_id = Some deviceId,
      na_alert_type = alertType,
      na_severity = severity,
      na_description = Some description,
      na_source_ip = sourceIp,
      na_detected_at = now e,
      na_status = ''active'',
      na_metadata = metadata\<rparr>"

definition createSecurityAlert ::
  "env \<Rightarrow> int \<Rightarrow> string \<Rightarrow> string \<Rightarrow> string \<Rightarrow> string option \<Rightarrow> jobject \<Rightarrow> database
     \<Rightarrow> (error + unit) \<times> database" where
  "createSecurityAlert e deviceId alertType severity description sourceIp metadata db =
     (case query e (InsertInto ''security_alerts'')
             (insert_security_alert e
                (security_alert_data e deviceId alertType severity description sourceIp metadata))
             db of
        (Inr row, db') \<Rightarrow> (Inr (), db')
      | (Inl err, db') \<Rightarrow> (Inr (), db'))"

section \<open>Access decision engine: connect and disconnect\<close>

definition json :: "nat \<Rightarrow> bool \<Rightarrow> string \<Rightarrow> connected_device option \<Rightarrow> response" where
  "json code ok msg dev =
     \<lparr>status_code = code, success = ok, message = msg, device_snapshot = dev\<rparr>"

text \<open>The response of the handler's \<open>catch\<close> block.\<close>

definition connection_error :: response where
  "connection_error = json 500 False ''An error occurred while connecting to the device'' None"

definition snapshot :: "env \<Rightarrow> device \<Rightarrow> connected_device" where
  "snapshot e device =
     \<lparr>cd_id = d_id device,
      cd_name = d_name device,
      cd_deviceType = d_device_type device,
      cd_macAddress = d_mac_address device,
      cd_ipAddress = d_ip_address device,
      cd_location = d_location device,
      cd_firmwareVersion = d_firmware_version device,
      cd_status = d_status device,
      cd_connectedAt = now e,
      cd_sessionDuration = ''0m 0s''\<rparr>"

text \<open>
  \<open>POST /connect/:deviceId\<close>. The result is the response, the session as the
  handler leaves it, and the store. Every \<open>Inl\<close> of an awaited call goes to the
  \<open>catch\<close> block. The block \<open>if (!hasPermission) { ... }\<close> either returns the 403
  (\<open>Inl\<close>, the early \<open>return\<close>) or hands the store on to the code after it
  (\<open>Inr\<close>).
\<close>

definition connect :: "env \<Rightarrow> request \<Rightarrow> database \<Rightarrow> response \<times> session \<times> database" where
  "connect e req db =
     (let userId = user_id (req_session req);
          sourceIp = ip req;
          userAgent = user_agent req
      in case parseInt (param_deviceId req) of
        None \<Rightarrow> (json 400 False ''Invalid device ID'' None, req_session req, db)
      | Some deviceId \<Rightarrow>
         (case query e (SelectFrom ''devices'') (select_device deviceId) db of
            (Inl err, db1) \<Rightarrow> (connection_error, req_session req, db1)
          | (Inr [], db1) \<Rightarrow>
              (case logBlockedAttempt e userId deviceId sourceIp ''invalid_device'' userAgent
                      [(''reason'', JStr ''device_not_found'')] db1 of
                 (Inl err, db2) \<Rightarrow> (connection_error, req_session req, db2)
               | (Inr u, db2) \<Rightarrow>
                   (json 404 False ''Device not found'' None, req_session req, db2))
          | (Inr (device # rest), db1) \<Rightarrow>
              if d_status device \<noteq> Some ''online'' then
                (case logBlockedAttempt e userId deviceId sourceIp ''offline_device'' userAgent
                        [(''reason'', JStr ''device_offline''),
                         (''device_status'', nullable (d_status device))] db1 of
                   (Inl err, db2) \<Rightarrow> (connection_error, req_session req, db2)
                 | (Inr u, db2) \<Rightarrow>
                     (json 400 False ''Device is currently offline'' None, req_session req, db2))
              else
                (case hasDevicePermission e userId deviceId db1 of
                   (Inl err, db2) \<Rightarrow> (connection_error, req_session req, db2)
                 | (Inr hasPermission, db2) \<Rightarrow>
                     (case (if \<not> hasPermission then
                              if has_security_enabled device then
                                (case logBlockedAttempt e userId deviceId sourceIp
                                        ''unauthorized_access'' userAgent
                                        [(''reason'', JStr ''no_permission_secured_device''),
                                         (''device_name'', JStr (d_name device)),
                                         (''security_enabled'', JBool True)] db2 of
                                   (Inl err, db3) \<Rightarrow>
                                     Inl (connection_error, req_session req, db3)
                                 | (Inr u, db3) \<Rightarrow>
                                     Inl (json 403 False
                                            ''Access denied. This device requires explicit permission and has security enabled.''
                                            None, req_session req, db3))
                              else
                                (case createSecurityAlert e deviceId ''Unauthorized Device Access''
                                        ''medium''
                                        (''User accessed unsecured device without explicit permission: ''
                                           @ d_name device)
                                        sourceIp
                                        [(''user_id'', JNum userId),
                                         (''device_name'', JStr (d_name device)),
                                         (''access_granted'', JBool True),
                                         (''security_enabled'', JBool False),
                                         (''reason'', JStr ''unsecured_device_access'')] db2 of
                                   (Inl err, db3) \<Rightarrow>
                                     Inl (connection_error, req_session req, db3)
                                 | (Inr u, db3) \<Rightarrow> Inr db3)
                            else Inr db2) of
                        Inl returned \<Rightarrow> returned
                      | Inr db3 \<Rightarrow>
                          (let connectedDevice = snapshot e device
                           in (json 200 True (''Successfully connected to '' @ d_name device)
                                 (Some connectedDevice),
                               (req_session req)\<lparr>connectedDevice := Some connectedDevice\<rparr>,
                               db3))))))"

text \<open>
  \<open>POST /disconnect/:deviceId\<close>. It calls nothing that can reject and never touches
  the store, which is passed through.
\<close>

definition not_connected :: response where
  "not_connected = json 400 False ''You are not connected to this device'' None"

definition disconnect :: "request \<Rightarrow> database \<Rightarrow> response \<times> session \<times> database" where
  "disconnect req db =
     (case parseInt (param_deviceId req) of
        None \<Rightarrow> (json 400 False ''Invalid device ID'' None, req_session req, db)
      | Some deviceId \<Rightarrow>
         (case connectedDevice (req_session req) of
            None \<Rightarrow> (not_connected, req_session req, db)
          | Some cd \<Rightarrow>
              if cd_id cd \<noteq> deviceId then (not_connected, req_session req, db)
              else
                (json 200 True (''Successfully disconnected from '' @ cd_name cd) None,
                 (req_session req)\<lparr>connectedDevice := None\<rparr>, db)))"

section \<open>Resolve transition (alerts API router)\<close>

text \<open>
  The body of \<open>PUT /:id/resolve\<close> carries \<open>resolved_by\<close> (a user id, when given) and
  \<open>resolution_note\<close>. The response is the status code and the JSON body: \<open>error\<close>
  text, \<open>message\<close> and \<open>data\<close>.
\<close>

record resolve_data =
  rd_id :: int
  rd_status :: "string option"
  rd_resolvedAt :: "timestamp option"
  rd_resolvedBy :: "int option"

datatype message_text = Text string | MessageOf error

record api_response =
  api_status :: nat
  api_success :: bool
  api_error :: "string option"
  api_message :: "message_text option"
  api_data :: "resolve_data option"

definition api_fail :: "nat \<Rightarrow> string \<Rightarrow> api_response" where
  "api_fail code err =
     \<lparr>api_status = code, api_success = False, api_error = Some err, api_message = None,
      api_data = None\<rparr>"

text \<open>The response of the route's \<open>catch\<close> block.\<close>

definition resolve_error :: "error \<Rightarrow> api_response" where
  "resolve_error err =
     \<lparr>api_status = 500, api_success = False, api_error = Some ''Failed to resolve alert'',
      api_message = Some (MessageOf err), api_data = None\<rparr>"

text \<open>
  The two body fields as the tests \<open>if (resolved_by)\<close> and \<open>if (resolution_note)\<close>
  see them: \<open>0\<close> and the empty string are falsy, like an absent field.
\<close>

definition given_id :: "int option \<Rightarrow> int option" where
  "given_id r = (case r of None \<Rightarrow> None | Some n \<Rightarrow> if n = 0 then None else Some n)"

definition given_text :: "string option \<Rightarrow> string option" where
  "given_text t = (case t of None \<Rightarrow> None | Some s \<Rightarrow> if s = [] then None else Some s)"

text \<open>
  The metadata written when a note is given: the current metadata, parsed, with the
  note added. The driver hands a \<open>jsonb\<close> column over as a value; what \<open>JSON.parse\<close>
  makes of it is the environment's \<open>JSON_parse\<close>, and a \<open>SyntaxError\<close> there reaches
  the \<open>catch\<close> block.
\<close>

definition merged_metadata ::
  "env \<Rightarrow> security_alert \<Rightarrow> string option \<Rightarrow> error + jobject option" where
  "merged_metadata e alert resolution_note =
     (case given_text resolution_note of
        None \<Rightarrow> Inr None
      | Some note \<Rightarrow>
          (case (case sa_metadata alert of None \<Rightarrow> Inr [] | Some m \<Rightarrow> JSON_parse e m) of
             Inl err \<Rightarrow> Inl err
           | Inr currentMetadata \<Rightarrow>
               Inr (Some (AList.update ''resolution_note'' (JStr note) currentMetadata))))"

text \<open>
  \<open>if (resolved_by) { user = await findById('users', resolved_by); if (!user) ... }\<close>:
  the answer is whether the route may go on.
\<close>

definition user_exists ::
  "env \<Rightarrow> int option \<Rightarrow> database \<Rightarrow> (error + bool) \<times> database" where
  "user_exists e resolved_by db =
     (case given_id resolved_by of
        None \<Rightarrow> (Inr True, db)
      | Some uid \<Rightarrow>
          (case findById_users e uid db of
             (Inl err, db') \<Rightarrow> (Inl err, db')
           | (Inr user, db') \<Rightarrow> (Inr (user \<noteq> None), db')))"

definition resolve ::
  "env \<Rightarrow> string \<Rightarrow> int option \<Rightarrow> string option \<Rightarrow> database \<Rightarrow> api_response \<times> database" where
  "resolve e param_id resolved_by resolution_note db =
     (case parseInt param_id of
        None \<Rightarrow> (api_fail 400 ''Invalid alert ID'', db)
      | Some alertId \<Rightarrow>
         (case findById_security_alerts e alertId db of
            (Inl err, db1) \<Rightarrow> (resolve_error err, db1)
          | (Inr None, db1) \<Rightarrow> (api_fail 404 ''Alert not found'', db1)
          | (Inr (Some alert), db1) \<Rightarrow>
              if sa_status alert \<noteq> Some ''active'' then
                (api_fail 400 ''Alert is already resolved or not active'', db1)
              else
                (case user_exists e resolved_by db1 of
                   (Inl err, db2) \<Rightarrow> (resolve_error err, db2)
                 | (Inr False, db2) \<Rightarrow> (api_fail 400 ''User not found'', db2)
                 | (Inr True, db2) \<Rightarrow>
                     (case merged_metadata e alert resolution_note of
                        Inl err \<Rightarrow> (resolve_error err, db2)
                      | Inr metadata \<Rightarrow>
                          (let updateData =
                                 \<lparr>up_status = ''resolved'',
                                  up_resolved_at = now e,
                                  up_resolved_by = given_id resolved_by,
                                  up_metadata = metadata\<rparr>
                           in case query e (Update ''security_alerts'')
                                     (update_security_alert updateData alertId) db2 of
                                (Inl err, db3) \<Rightarrow> (resolve_error err, db3)
                              | (Inr [], db3) \<Rightarrow> (api_fail 404 ''Alert not found'', db3)
                              | (Inr (updated # rest), db3) \<Rightarrow>
                                  (\<lparr>api_status = 200, api_success = True, api_error = None,
                                    api_message = Some (Text ''Alert resolved successfully''),
                                    api_data =
                                      Some \<lparr>rd_id = sa_id updated,
                                            rd_status = sa_status updated,
                                            rd_resolvedAt = sa_resolved_at updated,
                                            rd_resolvedBy = sa_resolved_by updated\<rparr>\<rparr>,
                                   db3))))))"

section \<open>Vocabulary of the properties\<close>

text \<open>
  A statement is served when one of the four attempts of \<open>query\<close> meets no fault and
  every attempt before it met a fault that \<open>query\<close> retries.
\<close>

definition retryable_fault :: "env \<Rightarrow> statement \<Rightarrow> nat \<Rightarrow> bool" where
  "retryable_fault e st n =
     (case fault e st n of None \<Rightarrow> False | Some c \<Rightarrow> \<not> no_retry (PgError c))"

definition served :: "env \<Rightarrow> statement \<Rightarrow> bool" where
  "served e st =
     (fault e st 0 = None \<or> retryable_fault e st 0 \<and>
       (fault e st 1 = None \<or> retryable_fault e st 1 \<and>
         (fault e st 2 = None \<or> retryable_fault e st 2 \<and> fault e st 3 = None)))"

text \<open>
  What the two audit tables make of \<open>req.ip\<close>: \<open>blocked_attempts.source_ip\<close> needs an
  address the server takes for an \<open>INET\<close> value, \<open>security_alerts.source_ip\<close> also
  takes none at all.
\<close>

definition source_accepted :: "env \<Rightarrow> string option \<Rightarrow> bool" where
  "source_accepted e sourceIp = (case sourceIp of None \<Rightarrow> False | Some s \<Rightarrow> inet_in e s)"

definition source_storable :: "env \<Rightarrow> string option \<Rightarrow> bool" where
  "source_storable e sourceIp = (case sourceIp of None \<Rightarrow> True | Some s \<Rightarrow> inet_in e s)"

text \<open>The row a table holds for an id, and the role the \<open>users\<close> table gives a user.\<close>

definition device_row :: "database \<Rightarrow> int \<Rightarrow> device option" where
  "device_row db i = first_row (filter (\<lambda>d. d_id d = i) (devices db))"

definition alert_row :: "database \<Rightarrow> int \<Rightarrow> security_alert option" where
  "alert_row db i = first_row (filter (\<lambda>a. sa_id a = i) (security_alerts db))"

definition role_of :: "database \<Rightarrow> int \<Rightarrow> string option" where
  "role_of db uid =
     (case first_row (filter (\<lambda>u. u_id u = uid) (users db)) of
        None \<Rightarrow> None
      | Some u \<Rightarrow> u_role u)"

section \<open>Scenario data\<close>

text \<open>
  The devices of the specification's scenarios: device 1 is offline, device 2 is online
  with firmware \<open>1.0\<close>, device 3 is online with empty firmware. User 1 is an admin,
  user 7 is not. Alert 1 is active, alert 2 was resolved at time 50.
\<close>

definition scenario_device :: "int \<Rightarrow> string \<Rightarrow> string option \<Rightarrow> string \<Rightarrow> device" where
  "scenario_device i name firmware st =
     \<lparr>d_id = i, d_name = name, d_device_type = ''camera'', d_mac_address = None,
      d_ip_address = None, d_location = None, d_firmware_version = firmware,
      d_status = Some st\<rparr>"

definition scenario_alert :: "int \<Rightarrow> string \<Rightarrow> timestamp option \<Rightarrow> security_alert" where
  "scenario_alert i st resolved =
     \<lparr>sa_id = i, sa_device_id = Some 2, sa_alert_type = ''Port Scan'', sa_severity = ''high'',
      sa_description = None, sa_source_ip = None, sa_detected_at = 10,
      sa_resolved_at = resolved, sa_status = Some st, sa_resolved_by = None,
      sa_metadata = None\<rparr>"

definition scenario_db :: database where
  "scenario_db =
     \<lparr>devices = [scenario_device 1 ''Door'' (Some ''2.1.4'') ''offline'',
                 scenario_device 2 ''Gate'' (Some ''1.0'') ''online'',
                 scenario_device 3 ''Lamp'' (Some []) ''online''],
      users = [\<lparr>u_id = 1, u_role = Some ''admin''\<rparr>, \<lparr>u_id = 7, u_role = Some ''user''\<rparr>],
      blocked_attempts = [],
      security_alerts = [scenario_alert 1 ''active'' None,
                         scenario_alert 2 ''resolved'' (Some 50)],
      security_alerts_id_seq = 2\<rparr>"

text \<open>
  The scenarios use two source addresses: \<open>10.0.0.5\<close>, which the server takes for an
  \<open>INET\<close> value, and the zoned \<open>fe80::1%eth0\<close>, which it refuses.
\<close>

definition scenario_inet :: "string \<Rightarrow> bool" where
  "scenario_inet s = (s = ''10.0.0.5'')"

definition quiet_env :: env where
  "quiet_env =
     \<lparr>now = 1000, fault = (\<lambda>st n. None), inet_in = scenario_inet,
      JSON_parse = (\<lambda>m. Inl SyntaxError)\<rparr>"

text \<open>An environment in which every attempt of every \<open>INSERT\<close> loses its connection.\<close>

definition failing_inserts_env :: env where
  "failing_inserts_env =
     \<lparr>now = 1000,
      fault = (\<lambda>st n. case st of InsertInto t \<Rightarrow> Some ''08006'' | _ \<Rightarrow> None),
      inet_in = scenario_inet,
      JSON_parse = (\<lambda>m. Inl SyntaxError)\<rparr>"

definition request_for :: "string \<Rightarrow> int \<Rightarrow> connected_device option \<Rightarrow> request" where
  "request_for p uid conn =
     \<lparr>param_deviceId = p, ip = Some ''10.0.0.5'', user_agent = Some ''curl/8'',
      req_session = \<lparr>user_id = uid, connectedDevice = conn\<rparr>\<rparr>"

text \<open>The same request with another \<open>req.ip\<close>: none at all, or any text.\<close>

definition request_from :: "string option \<Rightarrow> string \<Rightarrow> int \<Rightarrow> request" where
  "request_from sourceIp p uid =
     \<lparr>param_deviceId = p, ip = sourceIp, user_agent = Some ''curl/8'',
      req_session = \<lparr>user_id = uid, connectedDevice = None\<rparr>\<rparr>"

section \<open>The persistence gateway: what \<open>query\<close> returns\<close>

text \<open>
  Whatever the faults, \<open>query\<close> ends: it throws and leaves the store as it was, or it
  returns what the statement returns.
\<close>

lemma query_from_result:
  "query_from e st run db n = (res, db') \<Longrightarrow>
     (\<exists>err. res = Inl err \<and> db' = db) \<or> (\<exists>r. res = Inr r \<and> run db = Inr (r, db'))"
proof (induction e st run db n rule: query_from.induct)
  case (1 e st run db attempt)
  show ?case
  proof (cases "case fault e st attempt of Some c \<Rightarrow> Inl (PgError c) | None \<Rightarrow> run db")
    case (Inl err)
    show ?thesis
    proof (cases "no_retry err \<or> attempt + 1 > retries")
      case True
      with Inl "1.prems" show ?thesis
        by (subst (asm) query_from.simps) (auto split: if_splits)
    next
      case False
      with Inl "1.prems" have "query_from e st run db (attempt + 1) = (res, db')"
        by (subst (asm) query_from.simps) (auto split: if_splits)
      with "1.IH" [OF Inl] False show ?thesis by auto
    qed
  next
    case (Inr p)
    then obtain r d where p: "p = (r, d)" by (cases p)
    from Inr have "fault e st attempt = None" and "run db = Inr p"
      by (auto split: option.splits)
    with Inr p "1.prems" show ?thesis
      by (subst (asm) query_from.simps) auto
  qed
qed

lemma query_result:
  "query e st run db = (res, db') \<Longrightarrow>
     (\<exists>err. res = Inl err \<and> db' = db) \<or> (\<exists>r. res = Inr r \<and> run db = Inr (r, db'))"
  unfolding query_def by (rule query_from_result)

lemma query_from_ok:
  "fault e st n = None \<Longrightarrow> run db = Inr (r, db') \<Longrightarrow> query_from e st run db n = (Inr r, db')"
  by (subst query_from.simps) simp

lemma query_from_retry:
  "retryable_fault e st n \<Longrightarrow> n < 3 \<Longrightarrow> m = n + 1 \<Longrightarrow>
     query_from e st run db n = query_from e st run db m"
  by (subst query_from.simps)
     (auto simp: retryable_fault_def retries_def split: option.splits)

lemma query_served:
  assumes "served e st" and "run db = Inr (r, db')"
  shows "query e st run db = (Inr r, db')"
proof -
  have step: "\<And>n. fault e st n = None \<Longrightarrow> query_from e st run db n = (Inr r, db')"
    by (simp add: query_from_ok assms(2))
  have r0: "retryable_fault e st 0 \<Longrightarrow> query_from e st run db 0 = query_from e st run db 1"
    by (rule query_from_retry) simp_all
  have r1: "retryable_fault e st 1 \<Longrightarrow> query_from e st run db 1 = query_from e st run db 2"
    by (rule query_from_retry) simp_all
  have r2: "retryable_fault e st 2 \<Longrightarrow> query_from e st run db 2 = query_from e st run db 3"
    by (rule query_from_retry) simp_all
  from assms(1) consider
      (a) "fault e st 0 = None"
    | (b) "retryable_fault e st 0" "fault e st 1 = None"
    | (c) "retryable_fault e st 0" "retryable_fault e st 1" "fault e st 2 = None"
    | (d) "retryable_fault e st 0" "retryable_fault e st 1" "retryable_fault e st 2"
          "fault e st 3 = None"
    unfolding served_def by auto
  then show ?thesis
  proof cases
    case a
    then show ?thesis unfolding query_def by (rule step)
  next
    case b
    show ?thesis unfolding query_def r0 [OF b(1)] by (rule step [OF b(2)])
  next
    case c
    show ?thesis unfolding query_def r0 [OF c(1)] r1 [OF c(2)] by (rule step [OF c(3)])
  next
    case d
    show ?thesis unfolding query_def r0 [OF d(1)] r1 [OF d(2)] r2 [OF d(3)]
      by (rule step [OF d(4)])
  qed
qed

lemma query_rejected:
  assumes "run db = Inl err"
  shows "\<exists>err'. query e st run db = (Inl err', db)"
proof -
  obtain res db' where q: "query e st run db = (res, db')" by (cases "query e st run db")
  from query_result [OF q] assms show ?thesis using q by auto
qed


section \<open>Permission resolver and recorders\<close>

lemma query_select_user:
  "query e st (select_user uid) db = (res, db') \<Longrightarrow>
     db' = db \<and> (res = Inr (filter (\<lambda>u. u_id u = uid) (users db)) \<or> (\<exists>err. res = Inl err))"
  by (drule query_result) (auto simp: select_user_def)

lemma query_select_device:
  "query e st (select_device i) db = (res, db') \<Longrightarrow>
     db' = db \<and> (res = Inr (filter (\<lambda>d. d_id d = i) (devices db)) \<or> (\<exists>err. res = Inl err))"
  by (drule query_result) (auto simp: select_device_def)

lemma query_select_alert:
  "query e st (select_alert i) db = (res, db') \<Longrightarrow>
     db' = db \<and> (res = Inr (filter (\<lambda>a. sa_id a = i) (security_alerts db)) \<or> (\<exists>err. res = Inl err))"
  by (drule query_result) (auto simp: select_alert_def)

lemma hasDevicePermission_result:
  "\<exists>b. hasDevicePermission e uid did db = (Inr b, db)"
proof -
  obtain res db' where q: "query e (SelectFrom ''users'') (select_user uid) db = (res, db')"
    by (cases "query e (SelectFrom ''users'') (select_user uid) db")
  from query_select_user [OF q] show ?thesis
    by (auto simp: hasDevicePermission_def q split: list.splits)
qed

lemma hasDevicePermission_non_admin:
  assumes "role_of db uid \<noteq> Some ''admin''"
  shows "hasDevicePermission e uid did db = (Inr False, db)"
proof -
  obtain res db' where q: "query e (SelectFrom ''users'') (select_user uid) db = (res, db')"
    by (cases "query e (SelectFrom ''users'') (select_user uid) db")
  from query_select_user [OF q] assms show ?thesis
    by (auto simp: hasDevicePermission_def q role_of_def first_row_def split: list.splits)
qed

lemma hasDevicePermission_admin:
  assumes "role_of db uid = Some ''admin''" and "served e (SelectFrom ''users'')"
  shows "hasDevicePermission e uid did db = (Inr True, db)"
proof -
  have "query e (SelectFrom ''users'') (select_user uid) db
          = (Inr (filter (\<lambda>u. u_id u = uid) (users db)), db)"
    by (rule query_served [OF assms(2)]) (simp add: select_user_def)
  with assms(1) show ?thesis
    by (auto simp: hasDevicePermission_def role_of_def first_row_def split: list.splits)
qed

lemma logBlockedAttempt_result:
  "logBlockedAttempt e uid did sip ty ua details db = (res, db') \<Longrightarrow>
     res = Inr () \<and>
     (db' = db \<or>
      db' = db\<lparr>blocked_attempts :=
                 blocked_attempts db @ [blocked_attempt_row e uid did sip ty ua details]\<rparr>)"
proof -
  assume a: "logBlockedAttempt e uid did sip ty ua details db = (res, db')"
  obtain r d where q: "query e (InsertInto ''blocked_attempts'')
      (insert_blocked_attempt e (blocked_attempt_row e uid did sip ty ua details)) db = (r, d)"
    by (cases "query e (InsertInto ''blocked_attempts'')
      (insert_blocked_attempt e (blocked_attempt_row e uid did sip ty ua details)) db")
  from query_result [OF q] a show ?thesis
    by (auto simp: logBlockedAttempt_def q insert_blocked_attempt_def
             split: if_splits option.splits)
qed

lemma logBlockedAttempt_recorded:
  assumes "served e (InsertInto ''blocked_attempts'')" and "source_accepted e sip"
      and "did \<in> set (map d_id (devices db))"
  shows "logBlockedAttempt e uid did sip ty ua details db =
           (Inr (), db\<lparr>blocked_attempts :=
                          blocked_attempts db @ [blocked_attempt_row e uid did sip ty ua details]\<rparr>)"
proof -
  have "insert_blocked_attempt e (blocked_attempt_row e uid did sip ty ua details) db =
          Inr (blocked_attempt_row e uid did sip ty ua details,
               db\<lparr>blocked_attempts :=
                    blocked_attempts db @ [blocked_attempt_row e uid did sip ty ua details]\<rparr>)"
    using assms(2,3)
    by (auto simp: insert_blocked_attempt_def blocked_attempt_row_def references_device_def
          source_accepted_def split: option.splits)
  from query_served [where run = "insert_blocked_attempt e
        (blocked_attempt_row e uid did sip ty ua details)" and db = db, OF assms(1) this]
  show ?thesis
    by (simp add: logBlockedAttempt_def)
qed

lemma logBlockedAttempt_rejected:
  assumes "did \<notin> set (map d_id (devices db)) \<or> \<not> source_accepted e sip"
  shows "logBlockedAttempt e uid did sip ty ua details db = (Inr (), db)"
proof -
  have "\<exists>err. insert_blocked_attempt e (blocked_attempt_row e uid did sip ty ua details) db = Inl err"
    using assms
    by (auto simp: insert_blocked_attempt_def blocked_attempt_row_def references_device_def
          source_accepted_def split: option.splits)
  then obtain err where
    "insert_blocked_attempt e (blocked_attempt_row e uid did sip ty ua details) db = Inl err" ..
  from query_rejected [where run = "insert_blocked_attempt e
        (blocked_attempt_row e uid did sip ty ua details)" and db = db, OF this,
        of e "InsertInto ''blocked_attempts''"]
  show ?thesis
    by (auto simp: logBlockedAttempt_def)
qed

lemma first_row_filter:
  assumes "first_row (filter P xs) = Some x"
  shows "x \<in> set xs \<and> P x"
proof (cases "filter P xs")
  case Nil
  with assms show ?thesis by (simp add: first_row_def)
next
  case (Cons a as)
  with assms have "x = a" by (simp add: first_row_def)
  moreover have "a \<in> set (filter P xs)" by (simp add: Cons)
  ultimately show ?thesis by simp
qed

lemma device_row_member:
  "device_row db i = Some d \<Longrightarrow> i \<in> set (map d_id (devices db))"
  unfolding device_row_def by (drule first_row_filter) auto

lemma device_row_none:
  "device_row db i = None \<Longrightarrow> i \<notin> set (map d_id (devices db))"
  by (auto simp: device_row_def first_row_def filter_empty_conv split: list.splits)


section \<open>The decision table of connect\<close>

lemma device_lookup_served:
  assumes "served e (SelectFrom ''devices'')"
  shows "query e (SelectFrom ''devices'') (select_device i) db
           = (Inr (filter (\<lambda>d. d_id d = i) (devices db)), db)"
  by (rule query_served [OF assms]) (simp add: select_device_def)

lemma device_row_filter:
  "device_row db i = Some d \<Longrightarrow> \<exists>rest. filter (\<lambda>d. d_id d = i) (devices db) = d # rest"
  by (auto simp: device_row_def first_row_def split: list.splits)

lemma device_row_absent:
  "device_row db i = None \<Longrightarrow> filter (\<lambda>d. d_id d = i) (devices db) = []"
  by (auto simp: device_row_def first_row_def split: list.splits)

lemma scenario_parse:
  "parseInt ''1'' = Some 1" "parseInt ''2'' = Some 2" "parseInt ''3'' = Some 3"
  "parseInt ''999'' = Some 999" "parseInt ''0'' = Some 0" "parseInt ''abc'' = None"
  by (simp_all add: parseInt_def isWhiteSpace_def isRadixDigit_def digitValue_def mathInt_def)

section \<open>The alert recorder\<close>

lemma createSecurityAlert_result:
  "createSecurityAlert e did aty sev descr sip meta db = (res, db') \<Longrightarrow>
     res = Inr () \<and>
     (db' = db \<or>
      db' = db\<lparr>security_alerts := security_alerts db @
                   [stored_alert (security_alerts_id_seq db + 1)
                      (security_alert_data e did aty sev descr sip meta)],
                 security_alerts_id_seq := security_alerts_id_seq db + 1\<rparr>)"
proof -
  assume a: "createSecurityAlert e did aty sev descr sip meta db = (res, db')"
  obtain r d where q: "query e (InsertInto ''security_alerts'')
      (insert_security_alert e (security_alert_data e did aty sev descr sip meta)) db = (r, d)"
    by (cases "query e (InsertInto ''security_alerts'')
      (insert_security_alert e (security_alert_data e did aty sev descr sip meta)) db")
  from query_result [OF q] a show ?thesis
    by (auto simp: createSecurityAlert_def q insert_security_alert_def Let_def split: if_splits)
qed

lemma createSecurityAlert_recorded:
  assumes "served e (InsertInto ''security_alerts'')"
      and "did \<in> set (map d_id (devices db))"
      and "source_storable e sip"
  shows "createSecurityAlert e did aty sev descr sip meta db =
           (Inr (), db\<lparr>security_alerts := security_alerts db @
                          [stored_alert (security_alerts_id_seq db + 1)
                             (security_alert_data e did aty sev descr sip meta)],
                        security_alerts_id_seq := security_alerts_id_seq db + 1\<rparr>)"
proof -
  let ?data = "security_alert_data e did aty sev descr sip meta"
  have "insert_security_alert e ?data db =
          Inr (stored_alert (security_alerts_id_seq db + 1) ?data,
               db\<lparr>security_alerts := security_alerts db @
                     [stored_alert (security_alerts_id_seq db + 1) ?data],
                   security_alerts_id_seq := security_alerts_id_seq db + 1\<rparr>)"
    using assms(2,3)
    by (auto simp: insert_security_alert_def security_alert_data_def references_device_def Let_def
          source_storable_def split: option.splits)
  from query_served [where run = "insert_security_alert e ?data" and db = db, OF assms(1) this]
  show ?thesis
    by (simp add: createSecurityAlert_def)
qed

text \<open>
  Claim C3. A connect request of a user whose role in the \<open>users\<close> table is \<open>admin\<close>,
  for any online device, is answered 200 with the snapshot and leaves the store exactly
  as it was: no row is added to \<open>blocked_attempts\<close> or \<open>security_alerts\<close>. The store
  is read as working: the device lookup and the role lookup are served.
\<close>

theorem admin_allowed_without_audit:
  assumes "parseInt (param_deviceId req) = Some i"
      and "device_row db i = Some device"
      and "d_status device = Some ''online''"
      and "role_of db (user_id (req_session req)) = Some ''admin''"
      and "served e (SelectFrom ''devices'')"
      and "served e (SelectFrom ''users'')"
  shows "connect e req db =
           (json 200 True (''Successfully connected to '' @ d_name device)
              (Some (snapshot e device)),
            (req_session req)\<lparr>connectedDevice := Some (snapshot e device)\<rparr>,
            db)"
proof -
  from assms(2) obtain rest where rows: "filter (\<lambda>d. d_id d = i) (devices db) = device # rest"
    by (auto dest: device_row_filter)
  show ?thesis
    unfolding connect_def
    by (simp add: assms(1,3) device_lookup_served [OF assms(5)] rows
          hasDevicePermission_admin [OF assms(4,6)] Let_def)
qed

lemma unknown_device_unrecorded:
  assumes "parseInt (param_deviceId req) = Some i"
      and "device_row db i = None"
      and "served e (SelectFrom ''devices'')"
  shows "connect e req db = (json 404 False ''Device not found'' None, req_session req, db)"
proof -
  have "i \<notin> set (map d_id (devices db))"
    using assms(2) by (rule device_row_none)
  then have "i \<notin> set (map d_id (devices db)) \<or> \<not> source_accepted e (ip req)" ..
  from logBlockedAttempt_rejected [OF this] show ?thesis
    unfolding connect_def
    by (simp add: assms(1) device_lookup_served [OF assms(3)] device_row_absent [OF assms(2)])
qed

text \<open>
  Claim C4. The claim promises, for a device id that matches no row, the answer 404 and
  one row in \<open>blocked_attempts\<close> whose \<open>target_device_id\<close> is the requested id. The
  handler does call \<open>logBlockedAttempt\<close> with that id, but the column is declared
  \<open>INTEGER REFERENCES devices(id)\<close>: the insert violates the foreign key, \<open>query\<close>
  throws code 23503 without a retry, and \<open>logBlockedAttempt\<close> swallows the error. So
  the answer is 404 and nothing is recorded. Evaluated for the id 999 of the
  specification's scenario, with a store that meets no fault.
\<close>

theorem unknown_device_attempt_not_recorded:
  "connect quiet_env (request_for ''999'' 7 None) scenario_db =
     (json 404 False ''Device not found'' None, \<lparr>user_id = 7, connectedDevice = None\<rparr>, scenario_db)
   \<and> blocked_attempts (snd (snd (connect quiet_env (request_for ''999'' 7 None) scenario_db))) = []"
proof -
  have h1: "parseInt (param_deviceId (request_for ''999'' 7 None)) = Some 999"
    by (simp add: request_for_def scenario_parse)
  have h2: "device_row scenario_db 999 = None"
    by (simp add: device_row_def first_row_def scenario_db_def scenario_device_def)
  have h3: "served quiet_env (SelectFrom ''devices'')"
    by (simp add: served_def quiet_env_def)
  from unknown_device_unrecorded [OF h1 h2 h3] show ?thesis
    by (simp add: request_for_def scenario_db_def)
qed

section \<open>The scenarios of the specification\<close>

lemma served_quiet: "served quiet_env st"
  by (simp add: served_def quiet_env_def)

lemma scenario_rows:
  "device_row scenario_db 1 = Some (scenario_device 1 ''Door'' (Some ''2.1.4'') ''offline'')"
  "device_row scenario_db 2 = Some (scenario_device 2 ''Gate'' (Some ''1.0'') ''online'')"
  "device_row scenario_db 3 = Some (scenario_device 3 ''Lamp'' (Some []) ''online'')"
  "device_row scenario_db 999 = None"
  "device_row scenario_db 0 = None"
  by (simp_all add: device_row_def first_row_def scenario_db_def scenario_device_def)

lemma scenario_roles:
  "role_of scenario_db 1 = Some ''admin''" "role_of scenario_db 7 = Some ''user''"
  by (simp_all add: role_of_def first_row_def scenario_db_def)

text \<open>
  Admin 1 connects to the secured device 2.
\<close>

theorem admin_allowed_without_audit_witness:
  "parseInt (param_deviceId (request_for ''2'' 1 None)) = Some 2
   \<and> device_row scenario_db 2 = Some (scenario_device 2 ''Gate'' (Some ''1.0'') ''online'')
   \<and> role_of scenario_db 1 = Some ''admin''
   \<and> connect quiet_env (request_for ''2'' 1 None) scenario_db =
        (json 200 True ''Successfully connected to Gate''
           (Some (snapshot quiet_env (scenario_device 2 ''Gate'' (Some ''1.0'') ''online''))),
         \<lparr>user_id = 1,
          connectedDevice =
            Some (snapshot quiet_env (scenario_device 2 ''Gate'' (Some ''1.0'') ''online''))\<rparr>,
         scenario_db)"
proof -
  let ?dev = "scenario_device 2 ''Gate'' (Some ''1.0'') ''online''"
  have h1: "parseInt (param_deviceId (request_for ''2'' 1 None)) = Some 2"
    by (simp add: request_for_def scenario_parse)
  have h3: "d_status ?dev = Some ''online''"
    by (simp add: scenario_device_def)
  have h4: "role_of scenario_db (user_id (req_session (request_for ''2'' 1 None))) = Some ''admin''"
    by (simp add: scenario_roles request_for_def)
  have nm: "d_name ?dev = ''Gate''" by (simp add: scenario_device_def)
  from admin_allowed_without_audit [OF h1 scenario_rows(2) h3 h4 served_quiet served_quiet]
       h1 scenario_rows(2)
  show ?thesis by (simp add: request_for_def scenario_roles nm)
qed

text \<open>
  Claim C6, as stated, asks for 400 \<open>Invalid device ID\<close> whenever the path parameter
  does not parse to a positive integer. The handler only tests \<open>isNaN\<close>: the parameter
  \<open>0\<close> parses to 0, passes the test, and the request goes on to the device lookup,
  which answers 404.
\<close>

theorem nonpositive_device_id_counterexample:
  "parseInt (param_deviceId (request_for ''0'' 7 None)) = Some 0
   \<and> fst (connect quiet_env (request_for ''0'' 7 None) scenario_db) =
       json 404 False ''Device not found'' None
   \<and> status_code (fst (connect quiet_env (request_for ''0'' 7 None) scenario_db)) \<noteq> 400"
proof -
  have h1: "parseInt (param_deviceId (request_for ''0'' 7 None)) = Some 0"
    by (simp add: request_for_def scenario_parse)
  from unknown_device_unrecorded [OF h1 scenario_rows(5) served_quiet] h1
  show ?thesis by (simp add: json_def)
qed

text \<open>
  Claim C6, amended. When \<open>parseInt\<close> gives \<open>NaN\<close> for the path parameter, the
  handler answers 400 with the message \<open>Invalid device ID\<close>, leaves the session as it
  was and does not touch the store: no row reaches \<open>blocked_attempts\<close> or
  \<open>security_alerts\<close>. This holds whatever the faults of the store.
\<close>

theorem unparsable_device_id_rejected:
  assumes "parseInt (param_deviceId req) = None"
  shows "connect e req db = (json 400 False ''Invalid device ID'' None, req_session req, db)"
  unfolding connect_def by (simp add: assms)

text \<open>
  The parameter \<open>abc\<close>.
\<close>

theorem unparsable_device_id_rejected_witness:
  "parseInt (param_deviceId (request_for ''abc'' 7 None)) = None
   \<and> connect quiet_env (request_for ''abc'' 7 None) scenario_db =
       (json 400 False ''Invalid device ID'' None, \<lparr>user_id = 7, connectedDevice = None\<rparr>,
        scenario_db)"
proof -
  have h1: "parseInt (param_deviceId (request_for ''abc'' 7 None)) = None"
    by (simp add: request_for_def scenario_parse)
  from unparsable_device_id_rejected [OF h1] h1
  show ?thesis by (simp add: request_for_def)
qed

section \<open>Connect without its unreachable branches\<close>

lemma logBlockedAttempt_case:
  "(case logBlockedAttempt e u d sip ty ua det db of
      (Inl err, d2) \<Rightarrow> f err d2
    | (Inr x, d2) \<Rightarrow> g x d2) = g () (snd (logBlockedAttempt e u d sip ty ua det db))"
proof -
  obtain res db' where eq: "logBlockedAttempt e u d sip ty ua det db = (res, db')"
    by (cases "logBlockedAttempt e u d sip ty ua det db")
  from logBlockedAttempt_result [OF eq] show ?thesis by (simp add: eq)
qed

lemma createSecurityAlert_case:
  "(case createSecurityAlert e d aty sev descr sip meta db of
      (Inl err, d2) \<Rightarrow> f err d2
    | (Inr x, d2) \<Rightarrow> g x d2) = g () (snd (createSecurityAlert e d aty sev descr sip meta db))"
proof -
  obtain res db' where eq: "createSecurityAlert e d aty sev descr sip meta db = (res, db')"
    by (cases "createSecurityAlert e d aty sev descr sip meta db")
  from createSecurityAlert_result [OF eq] show ?thesis by (simp add: eq)
qed

lemma hasDevicePermission_case:
  "(case hasDevicePermission e u d db of
      (Inl err, d2) \<Rightarrow> f err d2
    | (Inr b, d2) \<Rightarrow> g b d2) = g (fst (hasDevicePermission e u d db) = Inr True) db"
proof -
  from hasDevicePermission_result obtain b where "hasDevicePermission e u d db = (Inr b, db)"
    by blast
  then show ?thesis by simp
qed

lemma device_lookup_keeps:
  "query e st (select_device i) db = (fst (query e st (select_device i) db), db)"
proof -
  obtain res db' where eq: "query e st (select_device i) db = (res, db')"
    by (cases "query e st (select_device i) db")
  from query_select_device [OF eq] show ?thesis by (simp add: eq)
qed

text \<open>
  The helpers never reject, so the \<open>catch\<close> branches behind them are never taken:
  connect, with these branches removed.
\<close>

lemma connect_outcome:
  "connect e req db =
     (case parseInt (param_deviceId req) of
        None \<Rightarrow> (json 400 False ''Invalid device ID'' None, req_session req, db)
      | Some i \<Rightarrow>
         (case fst (query e (SelectFrom ''devices'') (select_device i) db) of
            Inl err \<Rightarrow> (connection_error, req_session req, db)
          | Inr [] \<Rightarrow>
              (json 404 False ''Device not found'' None, req_session req,
               snd (logBlockedAttempt e (user_id (req_session req)) i (ip req) ''invalid_device''
                      (user_agent req) [(''reason'', JStr ''device_not_found'')] db))
          | Inr (device # rest) \<Rightarrow>
              if d_status device \<noteq> Some ''online'' then
                (json 400 False ''Device is currently offline'' None, req_session req,
                 snd (logBlockedAttempt e (user_id (req_session req)) i (ip req) ''offline_device''
                        (user_agent req)
                        [(''reason'', JStr ''device_offline''),
                         (''device_status'', nullable (d_status device))] db))
              else if fst (hasDevicePermission e (user_id (req_session req)) i db) \<noteq> Inr True
                      \<and> has_security_enabled device then
                (json 403 False
                   ''Access denied. This device requires explicit permission and has security enabled.''
                   None, req_session req,
                 snd (logBlockedAttempt e (user_id (req_session req)) i (ip req)
                        ''unauthorized_access'' (user_agent req)
                        [(''reason'', JStr ''no_permission_secured_device''),
                         (''device_name'', JStr (d_name device)),
                         (''security_enabled'', JBool True)] db))
              else
                (json 200 True (''Successfully connected to '' @ d_name device)
                   (Some (snapshot e device)),
                 (req_session req)\<lparr>connectedDevice := Some (snapshot e device)\<rparr>,
                 if fst (hasDevicePermission e (user_id (req_session req)) i db) \<noteq> Inr True
                 then snd (createSecurityAlert e i ''Unauthorized Device Access'' ''medium''
                             (''User accessed unsecured device without explicit permission: ''
                                @ d_name device)
                             (ip req)
                             [(''user_id'', JNum (user_id (req_session req))),
                              (''device_name'', JStr (d_name device)),
                              (''access_granted'', JBool True),
                              (''security_enabled'', JBool False),
                              (''reason'', JStr ''unsecured_device_access'')] db)
                 else db)))"
  unfolding connect_def Let_def
  apply (cases "parseInt (param_deviceId req)")
   apply simp
  apply (simp only: option.case)
  apply (subst device_lookup_keeps)
  apply (simp add: logBlockedAttempt_case createSecurityAlert_case hasDevicePermission_case
           split: sum.splits list.splits)
  done

text \<open>
  Claim C10. Whenever connect answers anything but 200 (invalid id, unknown device,
  offline device, Forbidden, or the 500 of a failed lookup), the session the handler
  leaves is the session of the request: \<open>connectedDevice\<close> is what it was, so a
  connection to another device stays. This holds whatever the faults of the store.
\<close>

theorem rejected_connect_keeps_session:
  "status_code (fst (connect e req db)) \<noteq> 200 \<Longrightarrow>
     fst (snd (connect e req db)) = req_session req"
  by (auto simp: connect_outcome json_def connection_error_def
           split: option.splits sum.splits list.splits if_splits)


section \<open>Two runs that agree on the lookups\<close>

lemma query_from_agree:
  assumes "\<And>n. fault e' st n = fault e st n"
      and "run db = Inr (r, d)" and "run' db' = Inr (r, d')"
  shows "fst (query_from e st run db n) = fst (query_from e' st run' db' n)"
  using assms
proof (induction e st run db n rule: query_from.induct)
  case (1 e st run db attempt)
  show ?case
  proof (cases "fault e st attempt")
    case None
    with "1.prems" show ?thesis
      by (simp add: query_from_ok)
  next
    case (Some c)
    show ?thesis
    proof (cases "no_retry (PgError c) \<or> attempt + 1 > retries")
      case True
      with Some "1.prems"(1) show ?thesis
        by (subst query_from.simps, subst (2) query_from.simps) auto
    next
      case False
      have left: "query_from e st run db attempt = query_from e st run db (attempt + 1)"
        using Some False by (subst query_from.simps) simp
      have right: "query_from e' st run' db' attempt = query_from e' st run' db' (attempt + 1)"
        using Some False "1.prems"(1) by (subst query_from.simps) simp
      have "fst (query_from e st run db (attempt + 1))
              = fst (query_from e' st run' db' (attempt + 1))"
        using Some False "1.prems" by (intro "1.IH" [of "PgError c"]) auto
      with left right show ?thesis by simp
    qed
  qed
qed

lemma device_lookup_agree:
  assumes "\<And>n. fault e' (SelectFrom ''devices'') n = fault e (SelectFrom ''devices'') n"
      and "devices db' = devices db"
  shows "fst (query e' (SelectFrom ''devices'') (select_device i) db')
           = fst (query e (SelectFrom ''devices'') (select_device i) db)"
  unfolding query_def
  by (rule query_from_agree [where r = "filter (\<lambda>d. d_id d = i) (devices db)"])
     (simp_all add: assms select_device_def)

lemma hasDevicePermission_agree:
  assumes "\<And>n. fault e' (SelectFrom ''users'') n = fault e (SelectFrom ''users'') n"
      and "users db' = users db"
  shows "fst (hasDevicePermission e' u d db') = fst (hasDevicePermission e u d db)"
proof -
  have q: "fst (query e' (SelectFrom ''users'') (select_user u) db')
             = fst (query e (SelectFrom ''users'') (select_user u) db)"
    unfolding query_def
    by (rule query_from_agree [where r = "filter (\<lambda>x. u_id x = u) (users db)"])
       (simp_all add: assms select_user_def)
  have shape: "\<And>e db. hasDevicePermission e u d db =
      (case fst (query e (SelectFrom ''users'') (select_user u) db) of
         Inr rows \<Rightarrow>
           (case rows of [] \<Rightarrow> (Inr False, snd (query e (SelectFrom ''users'') (select_user u) db))
            | x # _ \<Rightarrow> if u_role x = Some ''admin''
                then (Inr True, snd (query e (SelectFrom ''users'') (select_user u) db))
                else (Inr False, snd (query e (SelectFrom ''users'') (select_user u) db)))
       | Inl err \<Rightarrow> (Inr False, snd (query e (SelectFrom ''users'') (select_user u) db)))"
    by (simp add: hasDevicePermission_def split: prod.splits sum.splits list.splits)
  show ?thesis
    by (simp add: shape q split: sum.splits list.splits)
qed

lemma connect_agree:
  assumes "now e' = now e"
      and "\<And>t n. fault e' (SelectFrom t) n = fault e (SelectFrom t) n"
      and "param_deviceId req' = param_deviceId req"
      and "req_session req' = req_session req"
      and "devices db' = devices db" and "users db' = users db"
  shows "fst (connect e' req' db') = fst (connect e req db)
         \<and> fst (snd (connect e' req' db')) = fst (snd (connect e req db))"
proof -
  have snap: "\<And>dev. snapshot e' dev = snapshot e dev"
    by (simp add: snapshot_def assms(1))
  show ?thesis
    by (simp add: connect_outcome assms(3,4) snap
          device_lookup_agree [of e' e db' db, OF assms(2) assms(5)]
          hasDevicePermission_agree [of e' e db' db, OF assms(2) assms(6)]
          split: option.splits sum.splits list.splits)
qed


section \<open>The resolve route: lookups and the update\<close>

lemma findById_security_alerts_result:
  "findById_security_alerts e i db = (res, db') \<Longrightarrow>
     db' = db \<and> (res = Inr (alert_row db i) \<or> (\<exists>err. res = Inl err))"
proof -
  assume a: "findById_security_alerts e i db = (res, db')"
  obtain r d where q: "query e (SelectFrom ''security_alerts'') (select_alert i) db = (r, d)"
    by (cases "query e (SelectFrom ''security_alerts'') (select_alert i) db")
  from query_select_alert [OF q] a show ?thesis
    by (auto simp: findById_security_alerts_def q alert_row_def)
qed

lemma findById_security_alerts_served:
  assumes "served e (SelectFrom ''security_alerts'')"
  shows "findById_security_alerts e i db = (Inr (alert_row db i), db)"
proof -
  have "query e (SelectFrom ''security_alerts'') (select_alert i) db
          = (Inr (filter (\<lambda>a. sa_id a = i) (security_alerts db)), db)"
    by (rule query_served [OF assms]) (simp add: select_alert_def)
  then show ?thesis
    by (simp add: findById_security_alerts_def alert_row_def)
qed

lemma user_exists_result:
  "user_exists e rb db = (res, db') \<Longrightarrow> db' = db"
proof -
  assume a: "user_exists e rb db = (res, db')"
  show ?thesis
  proof (cases "given_id rb")
    case None
    with a show ?thesis by (simp add: user_exists_def)
  next
    case (Some uid)
    obtain r d where q: "query e (SelectFrom ''users'') (select_user uid) db = (r, d)"
      by (cases "query e (SelectFrom ''users'') (select_user uid) db")
    from query_select_user [OF q] a Some show ?thesis
      by (auto simp: user_exists_def findById_users_def q)
  qed
qed

lemma set_columns_id: "sa_id (set_columns u a) = sa_id a"
  by (simp add: set_columns_def)

lemma updated_rows:
  "filter (\<lambda>a. sa_id a = i) (map (\<lambda>a. if sa_id a = i then set_columns u a else a) xs)
     = map (set_columns u) (filter (\<lambda>a. sa_id a = i) xs)"
  by (induction xs) (simp_all add: set_columns_id)

lemma other_rows:
  "filter (\<lambda>a. sa_id a \<noteq> i) (map (\<lambda>a. if sa_id a = i then set_columns u a else a) xs)
     = filter (\<lambda>a. sa_id a \<noteq> i) xs"
  by (induction xs) (simp_all add: set_columns_id)

lemma update_security_alert_result:
  assumes "update_security_alert u i db = Inr (rows, db')"
  shows "rows = map (set_columns u) (filter (\<lambda>a. sa_id a = i) (security_alerts db))"
    and "db' = db\<lparr>security_alerts :=
                   map (\<lambda>a. if sa_id a = i then set_columns u a else a) (security_alerts db)\<rparr>"
proof -
  from assms have
    "rows = filter (\<lambda>a. sa_id a = i)
              (map (\<lambda>a. if sa_id a = i then set_columns u a else a) (security_alerts db))"
    by (simp add: update_security_alert_def Let_def split: if_splits)
  then show "rows = map (set_columns u) (filter (\<lambda>a. sa_id a = i) (security_alerts db))"
    by (simp only: updated_rows)
  from assms show "db' = db\<lparr>security_alerts :=
                   map (\<lambda>a. if sa_id a = i then set_columns u a else a) (security_alerts db)\<rparr>"
    by (simp add: update_security_alert_def Let_def split: if_splits)
qed


section \<open>Frame and recorder failures\<close>

lemma scenario_forbidden:
  "fst (connect quiet_env (request_for ''2'' 7 conn) scenario_db) =
     json 403 False
       ''Access denied. This device requires explicit permission and has security enabled.'' None"
proof -
  have rows: "filter (\<lambda>d. d_id d = 2) (devices scenario_db)
                = [scenario_device 2 ''Gate'' (Some ''1.0'') ''online'']"
    by (simp add: scenario_db_def scenario_device_def)
  have role: "role_of scenario_db 7 \<noteq> Some ''admin''"
    by (simp add: scenario_roles)
  show ?thesis
    by (simp add: connect_outcome request_for_def scenario_parse
          device_lookup_served [OF served_quiet] rows
          hasDevicePermission_non_admin [OF role]
          scenario_device_def has_security_enabled_def)
qed

text \<open>
  User 7, connected to device 3, asks for the secured device 2 and is refused; the
  connection to device 3 is still in the session.
\<close>

theorem rejected_connect_keeps_session_witness:
  "status_code (fst (connect quiet_env
       (request_for ''2'' 7
          (Some (snapshot quiet_env (scenario_device 3 ''Lamp'' (Some []) ''online''))))
       scenario_db)) \<noteq> 200
   \<and> fst (snd (connect quiet_env
       (request_for ''2'' 7
          (Some (snapshot quiet_env (scenario_device 3 ''Lamp'' (Some []) ''online''))))
       scenario_db))
     = \<lparr>user_id = 7,
        connectedDevice =
          Some (snapshot quiet_env (scenario_device 3 ''Lamp'' (Some []) ''online''))\<rparr>"
proof -
  let ?req = "request_for ''2'' 7
                (Some (snapshot quiet_env (scenario_device 3 ''Lamp'' (Some []) ''online'')))"
  have h: "status_code (fst (connect quiet_env ?req scenario_db)) \<noteq> 200"
    by (simp add: scenario_forbidden json_def)
  from rejected_connect_keeps_session [OF h] h show ?thesis
    by (simp add: request_for_def)
qed

lemma logBlockedAttempt_fst: "fst (logBlockedAttempt e uid did sip ty ua details db) = Inr ()"
proof -
  obtain res db' where eq: "logBlockedAttempt e uid did sip ty ua details db = (res, db')"
    by (cases "logBlockedAttempt e uid did sip ty ua details db")
  from logBlockedAttempt_result [OF eq] show ?thesis by (simp add: eq)
qed

lemma createSecurityAlert_fst:
  "fst (createSecurityAlert e did aty sev descr sip meta db) = Inr ()"
proof -
  obtain res db' where eq: "createSecurityAlert e did aty sev descr sip meta db = (res, db')"
    by (cases "createSecurityAlert e did aty sev descr sip meta db")
  from createSecurityAlert_result [OF eq] show ?thesis by (simp add: eq)
qed

text \<open>
  Claim C7. Neither recorder ever rejects: whatever the insert does (a fault at every
  attempt, the \<open>NOT NULL\<close> of \<open>source_ip\<close>, a foreign key), the result of
  \<open>logBlockedAttempt\<close> and of \<open>createSecurityAlert\<close> is a normal return. And the
  response and the session of connect are fixed by the path parameter, the session, the
  clock, the tables \<open>devices\<close> and \<open>users\<close> and the faults of the two lookups: two
  runs that agree on these give the same status and body, however they differ in what
  decides the fate of a recorder write (the faults of the \<open>INSERT\<close>s, \<open>req.ip\<close>, the
  user agent, the audit tables). In particular a run whose recorder write fails answers
  as the run in which the write goes through.
\<close>

theorem recorder_failures_swallowed:
  "fst (logBlockedAttempt e uid did sip ty ua details db) = Inr ()
   \<and> fst (createSecurityAlert e did aty sev descr sip meta db) = Inr ()
   \<and> (now e' = now e
        \<and> (\<forall>t n. fault e' (SelectFrom t) n = fault e (SelectFrom t) n)
        \<and> param_deviceId req' = param_deviceId req
        \<and> req_session req' = req_session req
        \<and> devices db' = devices db \<and> users db' = users db
      \<longrightarrow> fst (connect e' req' db') = fst (connect e req db)
          \<and> fst (snd (connect e' req' db')) = fst (snd (connect e req db)))"
  using connect_agree [of e' e req' req db' db]
  by (simp add: logBlockedAttempt_fst createSecurityAlert_fst)

lemma query_never_served:
  assumes "\<And>n. fault e st n = Some c" and "\<not> no_retry (PgError c)"
  shows "query e st run db = (Inl (PgError c), db)"
proof -
  have r: "\<And>n. retryable_fault e st n"
    by (simp add: retryable_fault_def assms)
  have last: "query_from e st run db 3 = (Inl (PgError c), db)"
    by (subst query_from.simps) (simp add: assms retries_def)
  have "query_from e st run db 0 = query_from e st run db 1"
    by (rule query_from_retry [OF r]) simp_all
  also have "\<dots> = query_from e st run db 2"
    by (rule query_from_retry [OF r]) simp_all
  also have "\<dots> = query_from e st run db 3"
    by (rule query_from_retry [OF r]) simp_all
  finally show ?thesis by (simp add: query_def last)
qed

lemma failing_insert_unrecorded:
  "logBlockedAttempt failing_inserts_env uid did sip ty ua details db = (Inr (), db)"
proof -
  have "query failing_inserts_env (InsertInto ''blocked_attempts'')
          (insert_blocked_attempt failing_inserts_env
             (blocked_attempt_row failing_inserts_env uid did sip ty ua details)) db
        = (Inl (PgError ''08006''), db)"
    by (rule query_never_served) (simp_all add: failing_inserts_env_def no_retry_def)
  then show ?thesis by (simp add: logBlockedAttempt_def)
qed

text \<open>
  With every \<open>INSERT\<close> failing, the blocked attempt on device 2 is not recorded, and
  user 7 still gets the 403 of the run without faults.
\<close>

theorem recorder_failures_swallowed_witness:
  "logBlockedAttempt failing_inserts_env 7 2 (Some ''10.0.0.5'') ''unauthorized_access'' None []
       scenario_db = (Inr (), scenario_db)
   \<and> now failing_inserts_env = now quiet_env
   \<and> (\<forall>t n. fault failing_inserts_env (SelectFrom t) n = fault quiet_env (SelectFrom t) n)
   \<and> fst (connect failing_inserts_env (request_for ''2'' 7 None) scenario_db) =
       json 403 False
         ''Access denied. This device requires explicit permission and has security enabled.''
         None
   \<and> fst (connect failing_inserts_env (request_for ''2'' 7 None) scenario_db) =
       fst (connect quiet_env (request_for ''2'' 7 None) scenario_db)"
proof -
  have h1: "now failing_inserts_env = now quiet_env"
    by (simp add: failing_inserts_env_def quiet_env_def)
  have h2: "\<forall>t n. fault failing_inserts_env (SelectFrom t) n = fault quiet_env (SelectFrom t) n"
    by (simp add: failing_inserts_env_def quiet_env_def)
  from recorder_failures_swallowed
         [where e' = failing_inserts_env and e = quiet_env
            and req' = "request_for ''2'' 7 None" and req = "request_for ''2'' 7 None"
            and db' = scenario_db and db = scenario_db]
       h1 h2 failing_insert_unrecorded [of 7 2 "Some ''10.0.0.5''" "''unauthorized_access''" None "[]" scenario_db]
  show ?thesis
    by (simp add: scenario_forbidden)
qed

section \<open>The resolve transition\<close>

lemma findById_security_alerts_keeps:
  "findById_security_alerts e i db = (fst (findById_security_alerts e i db), db)"
proof -
  obtain res db' where eq: "findById_security_alerts e i db = (res, db')"
    by (cases "findById_security_alerts e i db")
  from findById_security_alerts_result [OF eq] show ?thesis by (simp add: eq)
qed

lemma user_exists_keeps:
  "user_exists e rb db = (fst (user_exists e rb db), db)"
proof -
  obtain res db' where eq: "user_exists e rb db = (res, db')"
    by (cases "user_exists e rb db")
  from user_exists_result [OF eq] show ?thesis by (simp add: eq)
qed

lemma resolve_shape:
  assumes p: "parseInt p = Some i"
  shows "resolve e p rb note db =
     (case fst (findById_security_alerts e i db) of
        Inl err \<Rightarrow> (resolve_error err, db)
      | Inr None \<Rightarrow> (api_fail 404 ''Alert not found'', db)
      | Inr (Some alert) \<Rightarrow>
          if sa_status alert \<noteq> Some ''active'' then
            (api_fail 400 ''Alert is already resolved or not active'', db)
          else
            (case fst (user_exists e rb db) of
               Inl err \<Rightarrow> (resolve_error err, db)
             | Inr False \<Rightarrow> (api_fail 400 ''User not found'', db)
             | Inr True \<Rightarrow>
                 (case merged_metadata e alert note of
                    Inl err \<Rightarrow> (resolve_error err, db)
                  | Inr metadata \<Rightarrow>
                      (case query e (Update ''security_alerts'')
                              (update_security_alert
                                 \<lparr>up_status = ''resolved'', up_resolved_at = now e,
                                  up_resolved_by = given_id rb, up_metadata = metadata\<rparr> i) db of
                         (Inl err, db3) \<Rightarrow> (resolve_error err, db3)
                       | (Inr [], db3) \<Rightarrow> (api_fail 404 ''Alert not found'', db3)
                       | (Inr (updated # rest), db3) \<Rightarrow>
                           (\<lparr>api_status = 200, api_success = True, api_error = None,
                             api_message = Some (Text ''Alert resolved successfully''),
                             api_data =
                               Some \<lparr>rd_id = sa_id updated,
                                     rd_status = sa_status updated,
                                     rd_resolvedAt = sa_resolved_at updated,
                                     rd_resolvedBy = sa_resolved_by updated\<rparr>\<rparr>,
                            db3)))))"
  unfolding resolve_def Let_def
  apply (simp only: p option.case)
  apply (subst findById_security_alerts_keeps)
  apply (simp only: prod.case)
  apply (subst user_exists_keeps)
  apply (simp only: prod.case)
  done

lemma resolve_success:
  assumes "api_status (fst (resolve e p rb note db)) = 200"
  obtains i a md updated rest where
    "parseInt p = Some i"
    "fst (findById_security_alerts e i db) = Inr (Some a)"
    "sa_status a = Some ''active''"
    "query e (Update ''security_alerts'')
       (update_security_alert
          \<lparr>up_status = ''resolved'', up_resolved_at = now e,
           up_resolved_by = given_id rb, up_metadata = md\<rparr> i) db
     = (Inr (updated # rest), snd (resolve e p rb note db))"
proof -
  from assms obtain i where p: "parseInt p = Some i"
    by (cases "parseInt p") (simp_all add: resolve_def api_fail_def)
  from assms that [OF p] show thesis
    by (auto simp: resolve_shape [OF p] api_fail_def resolve_error_def
             split: sum.splits option.splits if_splits bool.splits prod.splits list.splits)
qed

lemma findById_security_alerts_fst:
  "fst (findById_security_alerts e i db) = Inr (alert_row db i)
   \<or> (\<exists>err. fst (findById_security_alerts e i db) = Inl err)"
  using findById_security_alerts_result [OF findById_security_alerts_keeps [of e i db]]
  by simp

lemma found_alert:
  "fst (findById_security_alerts e i db) = Inr (Some a) \<Longrightarrow> alert_row db i = Some a"
  using findById_security_alerts_fst [of e i db] by auto

lemma alert_row_updated:
  assumes "alert_row db i = Some a"
  shows "alert_row
           (db\<lparr>security_alerts :=
                 map (\<lambda>a. if sa_id a = i then set_columns u a else a) (security_alerts db)\<rparr>) i
         = Some (set_columns u a)"
  using assms
  by (simp add: alert_row_def updated_rows first_row_def split: list.splits)

text \<open>
  Claim C9. A resolve that answers 200 started from an alert in status \<open>active\<close> and
  reached its new store by one \<open>UPDATE\<close> statement whose \<open>SET\<close> list holds
  \<open>status = 'resolved'\<close> and \<open>resolved_at =\<close> the clock reading together; after it
  the alert has status \<open>resolved\<close> and a \<open>resolved_at\<close> that is not null. And for an
  alert whose status is not \<open>active\<close> (resolved, investigating, false positive or
  \<open>NULL\<close>) resolve never answers 200 and leaves the whole store as it was; when the
  lookup of the alert is served the answer is 400,
  \<open>Alert is already resolved or not active\<close>.
\<close>

theorem resolve_transition:
  "(api_status (fst (resolve e p rb note db)) = 200 \<longrightarrow>
      (\<exists>i a u rows a'.
         parseInt p = Some i
         \<and> alert_row db i = Some a \<and> sa_status a = Some ''active''
         \<and> up_status u = ''resolved'' \<and> up_resolved_at u = now e
         \<and> update_security_alert u i db = Inr (rows, snd (resolve e p rb note db))
         \<and> alert_row (snd (resolve e p rb note db)) i = Some a'
         \<and> sa_status a' = Some ''resolved'' \<and> sa_resolved_at a' = Some (now e)))
   \<and> (parseInt p = Some j \<and> alert_row db j = Some alert \<and> sa_status alert \<noteq> Some ''active'' \<longrightarrow>
        snd (resolve e p rb note db) = db
        \<and> api_status (fst (resolve e p rb note db)) \<noteq> 200
        \<and> (served e (SelectFrom ''security_alerts'') \<longrightarrow>
             fst (resolve e p rb note db) =
               api_fail 400 ''Alert is already resolved or not active''))"
proof (intro conjI impI)
  assume ok: "api_status (fst (resolve e p rb note db)) = 200"
  from resolve_success [OF ok] obtain i a md updated rest where
    p: "parseInt p = Some i"
    and f: "fst (findById_security_alerts e i db) = Inr (Some a)"
    and active: "sa_status a = Some ''active''"
    and q: "query e (Update ''security_alerts'')
       (update_security_alert
          \<lparr>up_status = ''resolved'', up_resolved_at = now e,
           up_resolved_by = given_id rb, up_metadata = md\<rparr> i) db
     = (Inr (updated # rest), snd (resolve e p rb note db))"
    by blast
  let ?u = "\<lparr>up_status = ''resolved'', up_resolved_at = now e,
             up_resolved_by = given_id rb, up_metadata = md\<rparr>"
  from query_result [OF q]
  have upd: "update_security_alert ?u i db = Inr (updated # rest, snd (resolve e p rb note db))"
    by simp
  have row: "alert_row db i = Some a" using f by (rule found_alert)
  have after: "alert_row (snd (resolve e p rb note db)) i = Some (set_columns ?u a)"
    by (simp only: update_security_alert_result(2) [OF upd] alert_row_updated [OF row])
  show "\<exists>i a u rows a'.
         parseInt p = Some i
         \<and> alert_row db i = Some a \<and> sa_status a = Some ''active''
         \<and> up_status u = ''resolved'' \<and> up_resolved_at u = now e
         \<and> update_security_alert u i db = Inr (rows, snd (resolve e p rb note db))
         \<and> alert_row (snd (resolve e p rb note db)) i = Some a'
         \<and> sa_status a' = Some ''resolved'' \<and> sa_resolved_at a' = Some (now e)"
    apply (rule exI [of _ i], rule exI [of _ a], rule exI [of _ ?u])
    apply (rule exI [of _ "updated # rest"], rule exI [of _ "set_columns ?u a"])
    apply (simp add: p row active upd after set_columns_def)
    done
next
  assume h: "parseInt p = Some j \<and> alert_row db j = Some alert \<and> sa_status alert \<noteq> Some ''active''"
  then have p: "parseInt p = Some j" and row: "alert_row db j = Some alert"
    and inactive: "sa_status alert \<noteq> Some ''active''" by simp_all
  have f: "fst (findById_security_alerts e j db) = Inr (Some alert)
           \<or> (\<exists>err. fst (findById_security_alerts e j db) = Inl err)"
    using findById_security_alerts_fst [of e j db] row by auto
  from f inactive show "snd (resolve e p rb note db) = db"
    by (auto simp: resolve_shape [OF p])
  from f inactive show "api_status (fst (resolve e p rb note db)) \<noteq> 200"
    by (auto simp: resolve_shape [OF p] api_fail_def resolve_error_def)
  assume "served e (SelectFrom ''security_alerts'')"
  from findById_security_alerts_served [OF this, of j db] row inactive
  show "fst (resolve e p rb note db) = api_fail 400 ''Alert is already resolved or not active''"
    by (simp add: resolve_shape [OF p])
qed


lemma scenario_alert_rows:
  "alert_row scenario_db 1 = Some (scenario_alert 1 ''active'' None)"
  "alert_row scenario_db 2 = Some (scenario_alert 2 ''resolved'' (Some 50))"
  by (simp_all add: alert_row_def first_row_def scenario_db_def scenario_alert_def)

lemma scenario_resolve:
  "api_status (fst (resolve quiet_env ''1'' None None scenario_db)) = 200"
proof -
  let ?u = "\<lparr>up_status = ''resolved'', up_resolved_at = now quiet_env,
             up_resolved_by = None, up_metadata = None\<rparr>"
  have upd: "update_security_alert ?u 1 scenario_db =
      Inr (map (set_columns ?u) (filter (\<lambda>a. sa_id a = 1) (security_alerts scenario_db)),
           scenario_db\<lparr>security_alerts :=
              map (\<lambda>a. if sa_id a = 1 then set_columns ?u a else a)
                (security_alerts scenario_db)\<rparr>)"
    by (simp add: update_security_alert_def Let_def updated_rows references_user_def
          given_id_def)
  have rows: "filter (\<lambda>a. sa_id a = 1) (security_alerts scenario_db)
                = [scenario_alert 1 ''active'' None]"
    by (simp add: scenario_db_def scenario_alert_def)
  have active: "sa_status (scenario_alert 1 ''active'' None) = Some ''active''"
    by (simp add: scenario_alert_def)
  show ?thesis
    by (simp add: resolve_shape [OF scenario_parse(1)]
          findById_security_alerts_served [OF served_quiet] scenario_alert_rows active
          user_exists_def merged_metadata_def given_text_def given_id_def
          query_served [where run = "update_security_alert ?u 1" and db = scenario_db,
                        OF served_quiet upd] rows)
qed

text \<open>
  Alert 1 is active and gets resolved at time 1000; alert 2 is resolved already and the
  second resolve is refused.
\<close>

theorem resolve_transition_witness:
  "api_status (fst (resolve quiet_env ''1'' None None scenario_db)) = 200
   \<and> (\<exists>a'. alert_row (snd (resolve quiet_env ''1'' None None scenario_db)) 1 = Some a'
           \<and> sa_status a' = Some ''resolved'' \<and> sa_resolved_at a' = Some 1000)
   \<and> parseInt ''2'' = Some 2
   \<and> alert_row scenario_db 2 = Some (scenario_alert 2 ''resolved'' (Some 50))
   \<and> sa_status (scenario_alert 2 ''resolved'' (Some 50)) \<noteq> Some ''active''
   \<and> served quiet_env (SelectFrom ''security_alerts'')
   \<and> resolve quiet_env ''2'' None None scenario_db =
       (api_fail 400 ''Alert is already resolved or not active'', scenario_db)"
proof -
  have n: "now quiet_env = 1000" by (simp add: quiet_env_def)
  have inactive: "sa_status (scenario_alert 2 ''resolved'' (Some 50)) \<noteq> Some ''active''"
    by (simp add: scenario_alert_def)
  from resolve_transition [of quiet_env "''1''" None None scenario_db] scenario_resolve
  have first: "\<exists>a'. alert_row (snd (resolve quiet_env ''1'' None None scenario_db)) 1 = Some a'
                 \<and> sa_status a' = Some ''resolved'' \<and> sa_resolved_at a' = Some 1000"
    by (auto simp: scenario_parse n)
  from resolve_transition [of quiet_env "''2''" None None scenario_db 2
          "scenario_alert 2 ''resolved'' (Some 50)"]
       scenario_parse(2) scenario_alert_rows(2) inactive served_quiet
  have second: "resolve quiet_env ''2'' None None scenario_db =
       (api_fail 400 ''Alert is already resolved or not active'', scenario_db)"
    by (simp add: prod_eq_iff)
  from first second scenario_resolve scenario_parse(2) scenario_alert_rows(2) inactive
       served_quiet [of "SelectFrom ''security_alerts''"]
  show ?thesis by simp
qed

text \<open>
  Claim C8, as stated, gives \<open>You are not connected to this device\<close> to every
  disconnect of a session without a matching connection. The handler tests the path
  parameter first: for the parameter \<open>abc\<close> and a session without connection the
  answer is 400 with the message \<open>Invalid device ID\<close>.
\<close>

section \<open>Disconnect\<close>

theorem disconnect_invalid_id_counterexample:
  "connectedDevice (req_session (request_for ''abc'' 7 None)) = None
   \<and> fst (disconnect (request_for ''abc'' 7 None) scenario_db) =
       json 400 False ''Invalid device ID'' None
   \<and> fst (disconnect (request_for ''abc'' 7 None) scenario_db) \<noteq> not_connected"
  by (simp add: disconnect_def request_for_def scenario_parse not_connected_def json_def)

text \<open>
  Claim C8, amended. For a disconnect whose path parameter parses to an integer: when
  the session holds no connection, or one to another device, the answer is 400 with the
  message \<open>You are not connected to this device\<close>, and session and store are
  unchanged; when the session holds the connection to that device, the answer is 200,
  the connection is cleared and the store is unchanged. The handler is a total function
  of the request: it calls nothing that can reject, so no case throws.
\<close>

theorem disconnect_outcome:
  assumes "parseInt (param_deviceId req) = Some i"
  shows "(connectedDevice (req_session req) = None \<longrightarrow>
            disconnect req db = (not_connected, req_session req, db))
       \<and> (\<forall>cd. connectedDevice (req_session req) = Some cd \<and> cd_id cd \<noteq> i \<longrightarrow>
            disconnect req db = (not_connected, req_session req, db))
       \<and> (\<forall>cd. connectedDevice (req_session req) = Some cd \<and> cd_id cd = i \<longrightarrow>
            disconnect req db =
              (json 200 True (''Successfully disconnected from '' @ cd_name cd) None,
               (req_session req)\<lparr>connectedDevice := None\<rparr>, db))"
  by (simp add: disconnect_def assms)

text \<open>
  Disconnect from device 3 with no connection, with a connection to device 2, and with
  the connection to device 3.
\<close>

theorem disconnect_outcome_witness:
  "parseInt (param_deviceId (request_for ''3'' 7 None)) = Some 3
   \<and> disconnect (request_for ''3'' 7 None) scenario_db =
       (not_connected, \<lparr>user_id = 7, connectedDevice = None\<rparr>, scenario_db)
   \<and> cd_id (snapshot quiet_env (scenario_device 2 ''Gate'' (Some ''1.0'') ''online'')) \<noteq> 3
   \<and> disconnect
        (request_for ''3'' 7
           (Some (snapshot quiet_env (scenario_device 2 ''Gate'' (Some ''1.0'') ''online''))))
        scenario_db =
       (not_connected,
        \<lparr>user_id = 7,
         connectedDevice =
           Some (snapshot quiet_env (scenario_device 2 ''Gate'' (Some ''1.0'') ''online''))\<rparr>,
        scenario_db)
   \<and> cd_id (snapshot quiet_env (scenario_device 3 ''Lamp'' (Some []) ''online'')) = 3
   \<and> disconnect
        (request_for ''3'' 7
           (Some (snapshot quiet_env (scenario_device 3 ''Lamp'' (Some []) ''online''))))
        scenario_db =
       (json 200 True ''Successfully disconnected from Lamp'' None,
        \<lparr>user_id = 7, connectedDevice = None\<rparr>, scenario_db)"
proof -
  let ?gate = "snapshot quiet_env (scenario_device 2 ''Gate'' (Some ''1.0'') ''online'')"
  let ?lamp = "snapshot quiet_env (scenario_device 3 ''Lamp'' (Some []) ''online'')"
  have p: "\<And>conn. parseInt (param_deviceId (request_for ''3'' 7 conn)) = Some 3"
    by (simp add: request_for_def scenario_parse)
  have g: "cd_id ?gate \<noteq> 3" by (simp add: snapshot_def scenario_device_def)
  have l: "cd_id ?lamp = 3" "cd_name ?lamp = ''Lamp''"
    by (simp_all add: snapshot_def scenario_device_def)
  from disconnect_outcome [OF p [of None], of scenario_db]
       disconnect_outcome [OF p [of "Some ?gate"], of scenario_db]
       disconnect_outcome [OF p [of "Some ?lamp"], of scenario_db]
       p [of None] g l
  show ?thesis by (simp add: request_for_def)
qed

section \<open>Audit rows and the source address\<close>

lemma logBlockedAttempt_keeps_alerts:
  "security_alerts (snd (logBlockedAttempt e uid did sip ty ua details db)) = security_alerts db"
proof -
  obtain res db' where eq: "logBlockedAttempt e uid did sip ty ua details db = (res, db')"
    by (cases "logBlockedAttempt e uid did sip ty ua details db")
  from logBlockedAttempt_result [OF eq] show ?thesis by (auto simp: eq)
qed

lemma createSecurityAlert_rejected:
  assumes "\<not> source_storable e sip"
  shows "createSecurityAlert e did aty sev descr sip meta db = (Inr (), db)"
proof -
  let ?data = "security_alert_data e did aty sev descr sip meta"
  have "insert_security_alert e ?data db = Inl (PgError ''22P02'')"
    using assms
    by (auto simp: insert_security_alert_def security_alert_data_def source_storable_def
          split: option.splits)
  from query_rejected [where run = "insert_security_alert e ?data" and db = db, OF this,
        of e "InsertInto ''security_alerts''"]
  show ?thesis
    by (auto simp: createSecurityAlert_def)
qed

lemma device_row_id: "device_row db i = Some d \<Longrightarrow> d_id d = i"
  unfolding device_row_def by (drule first_row_filter) simp

text \<open>
  Claim C1, amended. A connect request of a user who is not an admin, for an online
  device whose \<open>firmware_version\<close> is present and not empty, is answered 403
  (Forbidden) and leaves the session as it was, so no connection is stored; no alert is
  written. When the insert is served and the request carries a source address that the
  server takes for an \<open>INET\<close> value, exactly one row is appended to
  \<open>blocked_attempts\<close>, of type \<open>unauthorized_access\<close>, aimed at the device and
  carrying that address. The device lookup is read as served; the role lookup may fail,
  the resolver then answers no permission.
\<close>

theorem secured_device_forbidden:
  assumes "parseInt (param_deviceId req) = Some i"
      and "device_row db i = Some device"
      and "d_status device = Some ''online''"
      and "d_firmware_version device = Some v" and "v \<noteq> []"
      and "role_of db (user_id (req_session req)) \<noteq> Some ''admin''"
      and "served e (SelectFrom ''devices'')"
  shows "fst (connect e req db) =
           json 403 False
             ''Access denied. This device requires explicit permission and has security enabled.''
             None
         \<and> fst (snd (connect e req db)) = req_session req
         \<and> security_alerts (snd (snd (connect e req db))) = security_alerts db
         \<and> (served e (InsertInto ''blocked_attempts'') \<and> source_accepted e (ip req) \<longrightarrow>
              (\<exists>row. snd (snd (connect e req db)) =
                        db\<lparr>blocked_attempts := blocked_attempts db @ [row]\<rparr>
                     \<and> ba_attempt_type row = ''unauthorized_access''
                     \<and> ba_target_device_id row = Some i
                     \<and> ba_source_ip row = ip req
                     \<and> ba_attempt_count row = 1))"
proof -
  from assms(2) obtain rest where rows: "filter (\<lambda>d. d_id d = i) (devices db) = device # rest"
    by (auto dest: device_row_filter)
  have secured: "has_security_enabled device"
    using assms(4,5) by (simp add: has_security_enabled_def)
  have known: "i \<in> set (map d_id (devices db))"
    using assms(2) by (rule device_row_member)
  let ?details = "[(''reason'', JStr ''no_permission_secured_device''),
                   (''device_name'', JStr (d_name device)),
                   (''security_enabled'', JBool True)]"
  let ?row = "blocked_attempt_row e (user_id (req_session req)) i (ip req)
                ''unauthorized_access'' (user_agent req) ?details"
  have out: "connect e req db =
      (json 403 False
         ''Access denied. This device requires explicit permission and has security enabled.''
         None, req_session req,
       snd (logBlockedAttempt e (user_id (req_session req)) i (ip req)
              ''unauthorized_access'' (user_agent req) ?details db))"
    by (simp add: connect_outcome assms(1,3) device_lookup_served [OF assms(7)] rows secured
          hasDevicePermission_non_admin [OF assms(6)])
  have rec: "served e (InsertInto ''blocked_attempts'') \<and> source_accepted e (ip req) \<longrightarrow>
      (\<exists>row. snd (snd (connect e req db)) =
                db\<lparr>blocked_attempts := blocked_attempts db @ [row]\<rparr>
             \<and> ba_attempt_type row = ''unauthorized_access''
             \<and> ba_target_device_id row = Some i
             \<and> ba_source_ip row = ip req
             \<and> ba_attempt_count row = 1)"
  proof
    assume h: "served e (InsertInto ''blocked_attempts'') \<and> source_accepted e (ip req)"
    then have "snd (snd (connect e req db)) =
                 db\<lparr>blocked_attempts := blocked_attempts db @ [?row]\<rparr>"
      by (simp add: out logBlockedAttempt_recorded [OF _ _ known])
    then show "\<exists>row. snd (snd (connect e req db)) =
                db\<lparr>blocked_attempts := blocked_attempts db @ [row]\<rparr>
             \<and> ba_attempt_type row = ''unauthorized_access''
             \<and> ba_target_device_id row = Some i
             \<and> ba_source_ip row = ip req
             \<and> ba_attempt_count row = 1"
      by (intro exI [of _ ?row]) (simp add: blocked_attempt_row_def)
  qed
  show ?thesis
    using rec by (simp add: out logBlockedAttempt_keeps_alerts)
qed


lemma source_scenario:
  "source_accepted quiet_env (Some ''10.0.0.5'')" "source_storable quiet_env (Some ''10.0.0.5'')"
  "\<not> source_accepted quiet_env None" "\<not> inet_in quiet_env ''fe80::1%eth0''"
  "\<not> source_storable quiet_env (Some ''fe80::1%eth0'')"
  by (simp_all add: source_accepted_def source_storable_def quiet_env_def scenario_inet_def)

text \<open>
  The scenario of the specification: user 7 connects from \<open>10.0.0.5\<close> to device 2,
  online with firmware \<open>1.0\<close>.
\<close>

theorem secured_device_forbidden_witness:
  "parseInt (param_deviceId (request_for ''2'' 7 None)) = Some 2
   \<and> device_row scenario_db 2 = Some (scenario_device 2 ''Gate'' (Some ''1.0'') ''online'')
   \<and> role_of scenario_db 7 \<noteq> Some ''admin''
   \<and> served quiet_env (SelectFrom ''devices'')
   \<and> served quiet_env (InsertInto ''blocked_attempts'')
   \<and> source_accepted quiet_env (ip (request_for ''2'' 7 None))
   \<and> fst (connect quiet_env (request_for ''2'' 7 None) scenario_db) =
         json 403 False
           ''Access denied. This device requires explicit permission and has security enabled.''
           None
   \<and> fst (snd (connect quiet_env (request_for ''2'' 7 None) scenario_db)) =
         \<lparr>user_id = 7, connectedDevice = None\<rparr>
   \<and> (\<exists>row. snd (snd (connect quiet_env (request_for ''2'' 7 None) scenario_db)) =
           scenario_db\<lparr>blocked_attempts := blocked_attempts scenario_db @ [row]\<rparr>
         \<and> ba_attempt_type row = ''unauthorized_access''
         \<and> ba_target_device_id row = Some 2
         \<and> ba_source_ip row = Some ''10.0.0.5''
         \<and> ba_attempt_count row = 1)"
proof -
  let ?dev = "scenario_device 2 ''Gate'' (Some ''1.0'') ''online''"
  have h1: "parseInt (param_deviceId (request_for ''2'' 7 None)) = Some 2"
    by (simp add: request_for_def scenario_parse)
  have h3: "d_status ?dev = Some ''online''"
    by (simp add: scenario_device_def)
  have h4: "d_firmware_version ?dev = Some ''1.0''"
    by (simp add: scenario_device_def)
  have h5: "''1.0'' \<noteq> []" by simp
  have h6: "role_of scenario_db (user_id (req_session (request_for ''2'' 7 None))) \<noteq> Some ''admin''"
    by (simp add: scenario_roles request_for_def)
  have h8: "source_accepted quiet_env (ip (request_for ''2'' 7 None))"
    by (simp add: request_for_def source_scenario)
  have ipv: "ip (request_for ''2'' 7 None) = Some ''10.0.0.5''"
    by (simp add: request_for_def)
  from secured_device_forbidden [OF h1 scenario_rows(2) h3 h4 h5 h6 served_quiet]
       h1 scenario_rows(2) h8 served_quiet [of "InsertInto ''blocked_attempts''"]
       served_quiet [of "SelectFrom ''devices''"]
  show ?thesis
    by (simp add: scenario_roles ipv) (simp add: request_for_def)
qed

text \<open>
  Claim C1, as stated, has every such request record one blocked attempt. A request
  without \<open>req.ip\<close> (Express leaves it undefined when the socket has no remote
  address) is answered 403, but its row has no \<open>source_ip\<close>: the column is
  \<open>NOT NULL\<close>, the insert is refused, \<open>logBlockedAttempt\<close> swallows the error, and
  nothing is recorded, with a store that meets no fault.
\<close>

theorem forbidden_without_source_counterexample:
  "connect quiet_env (request_from None ''2'' 7) scenario_db =
     (json 403 False
        ''Access denied. This device requires explicit permission and has security enabled.''
        None,
      \<lparr>user_id = 7, connectedDevice = None\<rparr>, scenario_db)
   \<and> blocked_attempts (snd (snd (connect quiet_env (request_from None ''2'' 7) scenario_db))) = []"
proof -
  have rows: "filter (\<lambda>d. d_id d = 2) (devices scenario_db)
                = [scenario_device 2 ''Gate'' (Some ''1.0'') ''online'']"
    by (simp add: scenario_db_def scenario_device_def)
  have role: "role_of scenario_db 7 \<noteq> Some ''admin''"
    by (simp add: scenario_roles)
  have unrecorded: "\<And>uid did ty ua details.
      logBlockedAttempt quiet_env uid did None ty ua details scenario_db = (Inr (), scenario_db)"
    by (rule logBlockedAttempt_rejected) (simp add: source_scenario)
  have "connect quiet_env (request_from None ''2'' 7) scenario_db =
     (json 403 False
        ''Access denied. This device requires explicit permission and has security enabled.''
        None,
      \<lparr>user_id = 7, connectedDevice = None\<rparr>, scenario_db)"
    by (simp add: connect_outcome request_from_def scenario_parse
          device_lookup_served [OF served_quiet] rows
          hasDevicePermission_non_admin [OF role] unrecorded
          scenario_device_def has_security_enabled_def)
  then show ?thesis by (simp add: scenario_db_def)
qed

text \<open>
  Claim C5, amended. A connect request for a device whose status is not \<open>online\<close> (a
  \<open>NULL\<close> status included), by any user, is answered 400 with the message
  \<open>Device is currently offline\<close> and leaves the session as it was; no alert is written.
  When the insert is served and the request carries a source address that the server
  takes for an \<open>INET\<close> value, exactly one row is appended to \<open>blocked_attempts\<close>, of
  type \<open>offline_device\<close>, aimed at the device and carrying that address. The device
  lookup is read as served.
\<close>

theorem offline_device_refused:
  assumes "parseInt (param_deviceId req) = Some i"
      and "device_row db i = Some device"
      and "d_status device \<noteq> Some ''online''"
      and "served e (SelectFrom ''devices'')"
  shows "fst (connect e req db) = json 400 False ''Device is currently offline'' None
         \<and> fst (snd (connect e req db)) = req_session req
         \<and> security_alerts (snd (snd (connect e req db))) = security_alerts db
         \<and> (served e (InsertInto ''blocked_attempts'') \<and> source_accepted e (ip req) \<longrightarrow>
              (\<exists>row. snd (snd (connect e req db)) =
                        db\<lparr>blocked_attempts := blocked_attempts db @ [row]\<rparr>
                     \<and> ba_attempt_type row = ''offline_device''
                     \<and> ba_target_device_id row = Some i
                     \<and> ba_source_ip row = ip req
                     \<and> ba_attempt_count row = 1))"
proof -
  from assms(2) obtain rest where rows: "filter (\<lambda>d. d_id d = i) (devices db) = device # rest"
    by (auto dest: device_row_filter)
  have known: "i \<in> set (map d_id (devices db))"
    using assms(2) by (rule device_row_member)
  let ?details = "[(''reason'', JStr ''device_offline''),
                   (''device_status'', nullable (d_status device))]"
  let ?row = "blocked_attempt_row e (user_id (req_session req)) i (ip req)
                ''offline_device'' (user_agent req) ?details"
  have out: "connect e req db =
      (json 400 False ''Device is currently offline'' None, req_session req,
       snd (logBlockedAttempt e (user_id (req_session req)) i (ip req)
              ''offline_device'' (user_agent req) ?details db))"
    by (simp add: connect_outcome assms(1,3) device_lookup_served [OF assms(4)] rows)
  have rec: "served e (InsertInto ''blocked_attempts'') \<and> source_accepted e (ip req) \<longrightarrow>
      (\<exists>row. snd (snd (connect e req db)) =
                db\<lparr>blocked_attempts := blocked_attempts db @ [row]\<rparr>
             \<and> ba_attempt_type row = ''offline_device''
             \<and> ba_target_device_id row = Some i
             \<and> ba_source_ip row = ip req
             \<and> ba_attempt_count row = 1)"
  proof
    assume h: "served e (InsertInto ''blocked_attempts'') \<and> source_accepted e (ip req)"
    then have "snd (snd (connect e req db)) =
                 db\<lparr>blocked_attempts := blocked_attempts db @ [?row]\<rparr>"
      by (simp add: out logBlockedAttempt_recorded [OF _ _ known])
    then show "\<exists>row. snd (snd (connect e req db)) =
                db\<lparr>blocked_attempts := blocked_attempts db @ [row]\<rparr>
             \<and> ba_attempt_type row = ''offline_device''
             \<and> ba_target_device_id row = Some i
             \<and> ba_source_ip row = ip req
             \<and> ba_attempt_count row = 1"
      by (intro exI [of _ ?row]) (simp add: blocked_attempt_row_def)
  qed
  show ?thesis
    using rec by (simp add: out logBlockedAttempt_keeps_alerts)
qed

text \<open>
  The scenario of the specification: device 1 is offline.
\<close>

theorem offline_device_refused_witness:
  "parseInt (param_deviceId (request_for ''1'' 7 None)) = Some 1
   \<and> device_row scenario_db 1 = Some (scenario_device 1 ''Door'' (Some ''2.1.4'') ''offline'')
   \<and> d_status (scenario_device 1 ''Door'' (Some ''2.1.4'') ''offline'') \<noteq> Some ''online''
   \<and> served quiet_env (SelectFrom ''devices'')
   \<and> served quiet_env (InsertInto ''blocked_attempts'')
   \<and> source_accepted quiet_env (ip (request_for ''1'' 7 None))
   \<and> fst (connect quiet_env (request_for ''1'' 7 None) scenario_db) =
         json 400 False ''Device is currently offline'' None
   \<and> fst (snd (connect quiet_env (request_for ''1'' 7 None) scenario_db)) =
         \<lparr>user_id = 7, connectedDevice = None\<rparr>
   \<and> (\<exists>row. snd (snd (connect quiet_env (request_for ''1'' 7 None) scenario_db)) =
           scenario_db\<lparr>blocked_attempts := blocked_attempts scenario_db @ [row]\<rparr>
         \<and> ba_attempt_type row = ''offline_device''
         \<and> ba_target_device_id row = Some 1
         \<and> ba_source_ip row = Some ''10.0.0.5''
         \<and> ba_attempt_count row = 1)"
proof -
  let ?dev = "scenario_device 1 ''Door'' (Some ''2.1.4'') ''offline''"
  have h1: "parseInt (param_deviceId (request_for ''1'' 7 None)) = Some 1"
    by (simp add: request_for_def scenario_parse)
  have h3: "d_status ?dev \<noteq> Some ''online''"
    by (simp add: scenario_device_def)
  have h8: "source_accepted quiet_env (ip (request_for ''1'' 7 None))"
    by (simp add: request_for_def source_scenario)
  have ipv: "ip (request_for ''1'' 7 None) = Some ''10.0.0.5''"
    by (simp add: request_for_def)
  from offline_device_refused [OF h1 scenario_rows(1) h3 served_quiet]
       h1 scenario_rows(1) h3 h8 served_quiet [of "InsertInto ''blocked_attempts''"]
       served_quiet [of "SelectFrom ''devices''"]
  show ?thesis
    by (simp add: ipv) (simp add: request_for_def)
qed

text \<open>
  Claim C5, as stated, has every connect attempt for an offline device record one
  blocked attempt. A request without \<open>req.ip\<close> is answered 400, but the insert of its
  row is refused by \<open>source_ip INET NOT NULL\<close> and the error is swallowed: nothing is
  recorded, with a store that meets no fault.
\<close>

theorem offline_without_source_counterexample:
  "connect quiet_env (request_from None ''1'' 7) scenario_db =
     (json 400 False ''Device is currently offline'' None,
      \<lparr>user_id = 7, connectedDevice = None\<rparr>, scenario_db)
   \<and> blocked_attempts (snd (snd (connect quiet_env (request_from None ''1'' 7) scenario_db))) = []"
proof -
  have rows: "filter (\<lambda>d. d_id d = 1) (devices scenario_db)
                = [scenario_device 1 ''Door'' (Some ''2.1.4'') ''offline'']"
    by (simp add: scenario_db_def scenario_device_def)
  have unrecorded: "\<And>uid did ty ua details.
      logBlockedAttempt quiet_env uid did None ty ua details scenario_db = (Inr (), scenario_db)"
    by (rule logBlockedAttempt_rejected) (simp add: source_scenario)
  have "connect quiet_env (request_from None ''1'' 7) scenario_db =
     (json 400 False ''Device is currently offline'' None,
      \<lparr>user_id = 7, connectedDevice = None\<rparr>, scenario_db)"
    by (simp add: connect_outcome request_from_def scenario_parse
          device_lookup_served [OF served_quiet] rows unrecorded scenario_device_def)
  then show ?thesis by (simp add: scenario_db_def)
qed


lemma createSecurityAlert_keeps_attempts:
  "blocked_attempts (snd (createSecurityAlert e did aty sev descr sip meta db))
     = blocked_attempts db"
proof -
  obtain res db' where eq: "createSecurityAlert e did aty sev descr sip meta db = (res, db')"
    by (cases "createSecurityAlert e did aty sev descr sip meta db")
  from createSecurityAlert_result [OF eq] show ?thesis by (auto simp: eq)
qed

text \<open>
  Claim C2, amended. A connect request of a user who is not an admin, for an online
  device whose \<open>firmware_version\<close> is \<open>NULL\<close> or the empty string, is answered 200;
  the body carries the snapshot of the device, field by field (id, name, type, MAC and
  IP address, location, firmware, status, the clock reading and the duration
  \<open>0m 0s\<close>), and the same snapshot becomes the session's connection. No blocked
  attempt is written. When the insert is served and the request's source address is
  absent or one that the server takes for an \<open>INET\<close> value, exactly one row is
  appended to \<open>security_alerts\<close>, of severity \<open>medium\<close> and status \<open>active\<close>, not
  resolved, for the device. The device lookup is read as served; the role lookup may
  fail.
\<close>

theorem unsecured_device_allowed_with_alert:
  assumes "parseInt (param_deviceId req) = Some i"
      and "device_row db i = Some device"
      and "d_status device = Some ''online''"
      and "d_firmware_version device = None \<or> d_firmware_version device = Some []"
      and "role_of db (user_id (req_session req)) \<noteq> Some ''admin''"
      and "served e (SelectFrom ''devices'')"
  shows "\<exists>cd. cd = \<lparr>cd_id = i,
                     cd_name = d_name device,
                     cd_deviceType = d_device_type device,
                     cd_macAddress = d_mac_address device,
                     cd_ipAddress = d_ip_address device,
                     cd_location = d_location device,
                     cd_firmwareVersion = d_firmware_version device,
                     cd_status = Some ''online'',
                     cd_connectedAt = now e,
                     cd_sessionDuration = ''0m 0s''\<rparr>
         \<and> fst (connect e req db) =
             \<lparr>status_code = 200, success = True,
              message = ''Successfully connected to '' @ d_name device,
              device_snapshot = Some cd\<rparr>
         \<and> fst (snd (connect e req db)) =
             \<lparr>user_id = user_id (req_session req), connectedDevice = Some cd\<rparr>
         \<and> blocked_attempts (snd (snd (connect e req db))) = blocked_attempts db
         \<and> (served e (InsertInto ''security_alerts'') \<and> source_storable e (ip req) \<longrightarrow>
              (\<exists>row. snd (snd (connect e req db)) =
                        db\<lparr>security_alerts := security_alerts db @ [row],
                           security_alerts_id_seq := security_alerts_id_seq db + 1\<rparr>
                     \<and> sa_severity row = ''medium''
                     \<and> sa_status row = Some ''active''
                     \<and> sa_alert_type row = ''Unauthorized Device Access''
                     \<and> sa_device_id row = Some i
                     \<and> sa_source_ip row = ip req
                     \<and> sa_resolved_at row = None))"
proof -
  from assms(2) obtain rest where rows: "filter (\<lambda>d. d_id d = i) (devices db) = device # rest"
    by (auto dest: device_row_filter)
  have unsecured: "\<not> has_security_enabled device"
    using assms(4) by (auto simp: has_security_enabled_def)
  have known: "i \<in> set (map d_id (devices db))"
    using assms(2) by (rule device_row_member)
  have ident: "d_id device = i"
    using assms(2) by (rule device_row_id)
  let ?meta = "[(''user_id'', JNum (user_id (req_session req))),
                (''device_name'', JStr (d_name device)),
                (''access_granted'', JBool True),
                (''security_enabled'', JBool False),
                (''reason'', JStr ''unsecured_device_access'')]"
  let ?descr = "''User accessed unsecured device without explicit permission: '' @ d_name device"
  let ?row = "stored_alert (security_alerts_id_seq db + 1)
     (security_alert_data e i ''Unauthorized Device Access'' ''medium'' ?descr (ip req) ?meta)"
  have out: "connect e req db =
      (json 200 True (''Successfully connected to '' @ d_name device) (Some (snapshot e device)),
       (req_session req)\<lparr>connectedDevice := Some (snapshot e device)\<rparr>,
       snd (createSecurityAlert e i ''Unauthorized Device Access'' ''medium'' ?descr (ip req)
              ?meta db))"
    by (simp add: connect_outcome assms(1,3) device_lookup_served [OF assms(6)] rows unsecured
          hasDevicePermission_non_admin [OF assms(5)])
  have snap: "snapshot e device =
      \<lparr>cd_id = i, cd_name = d_name device, cd_deviceType = d_device_type device,
       cd_macAddress = d_mac_address device, cd_ipAddress = d_ip_address device,
       cd_location = d_location device, cd_firmwareVersion = d_firmware_version device,
       cd_status = Some ''online'', cd_connectedAt = now e, cd_sessionDuration = ''0m 0s''\<rparr>"
    by (simp add: snapshot_def ident assms(3))
  have rec: "served e (InsertInto ''security_alerts'') \<and> source_storable e (ip req) \<longrightarrow>
      (\<exists>row. snd (snd (connect e req db)) =
                db\<lparr>security_alerts := security_alerts db @ [row],
                   security_alerts_id_seq := security_alerts_id_seq db + 1\<rparr>
             \<and> sa_severity row = ''medium''
             \<and> sa_status row = Some ''active''
             \<and> sa_alert_type row = ''Unauthorized Device Access''
             \<and> sa_device_id row = Some i
             \<and> sa_source_ip row = ip req
             \<and> sa_resolved_at row = None)"
  proof
    assume h: "served e (InsertInto ''security_alerts'') \<and> source_storable e (ip req)"
    then have "snd (snd (connect e req db)) =
                 db\<lparr>security_alerts := security_alerts db @ [?row],
                    security_alerts_id_seq := security_alerts_id_seq db + 1\<rparr>"
      by (simp add: out createSecurityAlert_recorded [OF _ known])
    then show "\<exists>row. snd (snd (connect e req db)) =
                db\<lparr>security_alerts := security_alerts db @ [row],
                   security_alerts_id_seq := security_alerts_id_seq db + 1\<rparr>
             \<and> sa_severity row = ''medium''
             \<and> sa_status row = Some ''active''
             \<and> sa_alert_type row = ''Unauthorized Device Access''
             \<and> sa_device_id row = Some i
             \<and> sa_source_ip row = ip req
             \<and> sa_resolved_at row = None"
      by (intro exI [of _ ?row]) (simp add: stored_alert_def security_alert_data_def)
  qed
  show ?thesis
    using rec
    by (simp add: out snap json_def createSecurityAlert_keeps_attempts)
qed

text \<open>
  The scenario of the specification: user 7 connects from \<open>10.0.0.5\<close> to device 3,
  online with empty firmware, at time 1000.
\<close>

theorem unsecured_device_allowed_with_alert_witness:
  "parseInt (param_deviceId (request_for ''3'' 7 None)) = Some 3
   \<and> device_row scenario_db 3 = Some (scenario_device 3 ''Lamp'' (Some []) ''online'')
   \<and> role_of scenario_db 7 \<noteq> Some ''admin''
   \<and> served quiet_env (SelectFrom ''devices'')
   \<and> served quiet_env (InsertInto ''security_alerts'')
   \<and> source_storable quiet_env (ip (request_for ''3'' 7 None))
   \<and> fst (connect quiet_env (request_for ''3'' 7 None) scenario_db) =
        \<lparr>status_code = 200, success = True, message = ''Successfully connected to Lamp'',
         device_snapshot =
           Some \<lparr>cd_id = 3, cd_name = ''Lamp'', cd_deviceType = ''camera'',
                 cd_macAddress = None, cd_ipAddress = None, cd_location = None,
                 cd_firmwareVersion = Some [], cd_status = Some ''online'',
                 cd_connectedAt = 1000, cd_sessionDuration = ''0m 0s''\<rparr>\<rparr>
   \<and> fst (snd (connect quiet_env (request_for ''3'' 7 None) scenario_db)) =
        \<lparr>user_id = 7,
         connectedDevice =
           Some \<lparr>cd_id = 3, cd_name = ''Lamp'', cd_deviceType = ''camera'',
                 cd_macAddress = None, cd_ipAddress = None, cd_location = None,
                 cd_firmwareVersion = Some [], cd_status = Some ''online'',
                 cd_connectedAt = 1000, cd_sessionDuration = ''0m 0s''\<rparr>\<rparr>
   \<and> (\<exists>row. snd (snd (connect quiet_env (request_for ''3'' 7 None) scenario_db)) =
           scenario_db\<lparr>security_alerts := security_alerts scenario_db @ [row],
                      security_alerts_id_seq := 3\<rparr>
         \<and> sa_severity row = ''medium''
         \<and> sa_status row = Some ''active''
         \<and> sa_alert_type row = ''Unauthorized Device Access''
         \<and> sa_device_id row = Some 3
         \<and> sa_source_ip row = Some ''10.0.0.5''
         \<and> sa_resolved_at row = None)"
proof -
  let ?dev = "scenario_device 3 ''Lamp'' (Some []) ''online''"
  have h1: "parseInt (param_deviceId (request_for ''3'' 7 None)) = Some 3"
    by (simp add: request_for_def scenario_parse)
  have h3: "d_status ?dev = Some ''online''"
    by (simp add: scenario_device_def)
  have h4: "d_firmware_version ?dev = None \<or> d_firmware_version ?dev = Some []"
    by (simp add: scenario_device_def)
  have h5: "role_of scenario_db (user_id (req_session (request_for ''3'' 7 None))) \<noteq> Some ''admin''"
    by (simp add: scenario_roles request_for_def)
  have h8: "source_storable quiet_env (ip (request_for ''3'' 7 None))"
    by (simp add: request_for_def source_scenario)
  have fields: "d_name ?dev = ''Lamp''" "d_device_type ?dev = ''camera''"
    "d_mac_address ?dev = None" "d_ip_address ?dev = None" "d_location ?dev = None"
    "d_firmware_version ?dev = Some []"
    by (simp_all add: scenario_device_def)
  have env: "now quiet_env = 1000" by (simp add: quiet_env_def)
  have sq: "security_alerts_id_seq scenario_db + 1 = 3" by (simp add: scenario_db_def)
  have ipv: "ip (request_for ''3'' 7 None) = Some ''10.0.0.5''"
       "user_id (req_session (request_for ''3'' 7 None)) = 7"
    by (simp_all add: request_for_def)
  from unsecured_device_allowed_with_alert
         [OF h1 scenario_rows(3) h3 h4 h5 served_quiet]
       h1 scenario_rows(3) h8 served_quiet [of "InsertInto ''security_alerts''"]
       served_quiet [of "SelectFrom ''devices''"]
  show ?thesis
    by (simp add: scenario_roles fields env sq ipv)
qed

text \<open>
  Claim C2, as stated, has every such request create one alert. A request whose
  \<open>req.ip\<close> is the zoned link-local address \<open>fe80::1%eth0\<close> is answered 200 and
  gets its connection, but the server does not take the text for an \<open>INET\<close> value:
  the insert of the alert is refused, \<open>createSecurityAlert\<close> swallows the error, and
  the store is as it was, with no fault met.
\<close>

theorem alert_lost_for_zoned_source_counterexample:
  "\<not> inet_in quiet_env ''fe80::1%eth0''
   \<and> status_code (fst (connect quiet_env (request_from (Some ''fe80::1%eth0'') ''3'' 7)
                          scenario_db)) = 200
   \<and> connectedDevice (fst (snd (connect quiet_env (request_from (Some ''fe80::1%eth0'') ''3'' 7)
                                   scenario_db))) \<noteq> None
   \<and> snd (snd (connect quiet_env (request_from (Some ''fe80::1%eth0'') ''3'' 7) scenario_db))
       = scenario_db
   \<and> length (security_alerts
        (snd (snd (connect quiet_env (request_from (Some ''fe80::1%eth0'') ''3'' 7)
                     scenario_db)))) = length (security_alerts scenario_db)"
proof -
  have rows: "filter (\<lambda>d. d_id d = 3) (devices scenario_db)
                = [scenario_device 3 ''Lamp'' (Some []) ''online'']"
    by (simp add: scenario_db_def scenario_device_def)
  have role: "role_of scenario_db 7 \<noteq> Some ''admin''"
    by (simp add: scenario_roles)
  have lost: "\<And>did aty sev descr meta.
      createSecurityAlert quiet_env did aty sev descr (Some ''fe80::1%eth0'') meta scenario_db
        = (Inr (), scenario_db)"
    by (rule createSecurityAlert_rejected) (simp add: source_scenario)
  have "connect quiet_env (request_from (Some ''fe80::1%eth0'') ''3'' 7) scenario_db =
     (json 200 True ''Successfully connected to Lamp''
        (Some (snapshot quiet_env (scenario_device 3 ''Lamp'' (Some []) ''online''))),
      \<lparr>user_id = 7,
       connectedDevice =
         Some (snapshot quiet_env (scenario_device 3 ''Lamp'' (Some []) ''online''))\<rparr>,
      scenario_db)"
    by (simp add: connect_outcome request_from_def scenario_parse
          device_lookup_served [OF served_quiet] rows
          hasDevicePermission_non_admin [OF role] lost
          scenario_device_def has_security_enabled_def)
  then show ?thesis by (simp add: json_def source_scenario)
qed

end
